theory Spec2Isabelle
  imports Complex_Main "HOL-Library.Char_ord" "HOL-Library.List_Lexorder"
begin

section \<open>Commission Saver: the WhatsApp booking layer\<close>

text \<open>
  The development embeds the JavaScript sources: \<open>database.js\<close> (the schema),
  \<open>models/booking.js\<close>, \<open>models/operator.js\<close>, \<open>models/route.js\<close>,
  \<open>models/messageLog.js\<close>, \<open>services/whatsapp.js\<close>, \<open>services/reminder.js\<close>,
  \<open>routes/webhook.js\<close> and the scheduled jobs of \<open>server.js\<close>.

  Conventions. A table is the list of its rows in rowid order. The SQLite store itself is
  taken to work (no statement is rejected by the engine); every other throw of the
  sources is a branch of the model. Text is a list of 8-bit characters, and upper-casing
  acts on the ASCII letters. A point in time is a number of milliseconds since the epoch;
  \<open>CURRENT_TIMESTAMP\<close> has a resolution of one second.
\<close>

subsection \<open>Schema (database.js)\<close>

record operator_row =
  op_id :: nat
  op_name :: string
  op_phone_number :: string
  op_routes :: "string option"
  op_approved :: int
  op_created_at :: nat

record route_row =
  r_id :: nat
  r_operator_id :: nat
  r_source :: string
  r_destination :: string
  r_departure_time :: string
  r_price :: real
  r_created_at :: nat

record booking_row =
  b_id :: nat
  b_customer_name :: "string option"
  b_customer_phone :: string
  b_route_id :: nat
  b_journey_date :: string
  b_seat_count :: int
  b_status :: string
  b_created_at :: nat

record message_log_row =
  ml_id :: nat
  ml_booking_id :: "nat option"
  ml_type :: string
  ml_sent_at :: nat

record database =
  operators :: "operator_row list"
  routes :: "route_row list"
  bookings :: "booking_row list"
  message_logs :: "message_log_row list"

text \<open>\<open>INTEGER PRIMARY KEY AUTOINCREMENT\<close>: one more than the largest id in use (no row
  is ever deleted by the sources).\<close>

definition next_id :: "nat list \<Rightarrow> nat" where
  "next_id ids = Suc (fold max ids 0)"

text \<open>The primary key of the bookings table.\<close>

definition distinct_booking_ids :: "database \<Rightarrow> bool" where
  "distinct_booking_ids d = distinct (map b_id (bookings d))"

subsection \<open>Environment: configuration and platform functions\<close>

record config =
  WEBHOOK_VERIFY_TOKEN :: "string option"
  ACCESS_TOKEN :: "string option"
  PHONE_NUMBER_ID :: "string option"
  OPERATOR_PHONE :: "string option"
  OPERATOR_NAME :: "string option"

text \<open>The outbound texts, one constructor per template of the sources with the values
  interpolated into it.\<close>

datatype wa_text =
    TxtNoRoutes
  | TxtOperatorRequest nat string string string string string int real
  | TxtCustomerReceived nat string string string string int real
  | TxtBookingError
  | TxtNoPendingConfirm
  | TxtCustomerConfirmed nat string string string string int real
  | TxtOperatorConfirmed nat
  | TxtConfirmError
  | TxtNoPendingReject
  | TxtCustomerRejected nat string string string
  | TxtOperatorRejected nat
  | TxtRejectError
  | TxtReminder string string string string

text \<open>
  What the sources take from outside: the process environment, the HTTP call of
  \<open>axios.post\<close> (\<open>deliver\<close> tells whether it succeeds), the formatting of a JavaScript
  \<open>Date\<close> (\<open>toISOString().split('T')[0]\<close>, \<open>toTimeString().split(' ')[0]\<close>,
  \<open>setDate(getDate() + 1)\<close>) and SQLite's \<open>datetime()\<close>, which is NULL on text it cannot
  read and is otherwise ordered as the instant it denotes.
\<close>

record platform =
  env :: config
  deliver :: "string \<Rightarrow> wa_text \<Rightarrow> bool"
  isoDate :: "nat \<Rightarrow> string"
  timeString :: "nat \<Rightarrow> string"
  nextDay :: "nat \<Rightarrow> nat"
  sql_datetime :: "string \<Rightarrow> nat option"

datatype error =
    MissingAccessToken
  | MissingPhoneNumberId
  | PhoneNumberRequired
  | WhatsAppApiError
  | TypeError

datatype log_line =
    LogWebhookVerified
  | LogVerifyTokenMismatch
  | LogVerifyMissingParameters
  | LogInvalidPayload
  | LogIgnoringNonText "string option"
  | LogReceived string string
  | LogNoMessages
  | LogErrorProcessingWebhook error
  | LogCustomerUnrecognized string string
  | LogOperatorUnrecognized string string
  | LogNoRoutes
  | LogBookingCreated nat string
  | LogNoOperator
  | LogNotificationSent
  | LogErrorCreatingBooking error
  | LogErrorNotifyingCustomer error
  | LogNoPendingConfirm
  | LogNoPendingReject
  | LogUpdateFailed
  | LogConfirmed nat string
  | LogConfirmationSent string
  | LogErrorConfirming error
  | LogRejected nat string
  | LogRejectionSent string
  | LogErrorRejecting error
  | LogErrorNotifyingOperator error
  | LogWhatsAppApiError
  | LogRouteNotFound nat
  | LogReminderSent nat
  | LogReminderFailed nat error
  | LogConfirmedBy nat "string option"
  | LogRejectedBy nat "string option"

text \<open>The state: the database, the texts the provider accepted (recipient and text, in
  order) and the console.\<close>

record world =
  db :: database
  outbox :: "(string \<times> wa_text) list"
  console :: "log_line list"

definition logc :: "log_line \<Rightarrow> world \<Rightarrow> world" where
  "logc l w = w\<lparr>console := console w @ [l]\<rparr>"

text \<open>A step that may throw returns the state it reached and the error, if any.\<close>

type_synonym outcome = "world \<times> error option"

definition andThen :: "outcome \<Rightarrow> (world \<Rightarrow> outcome) \<Rightarrow> outcome" where
  "andThen r f = (case r of (w, None) \<Rightarrow> f w | (w, Some e) \<Rightarrow> (w, Some e))"

subsection \<open>JavaScript strings\<close>

text \<open>A string that is \<open>undefined\<close> or empty is falsy.\<close>

definition truthy :: "string option \<Rightarrow> bool" where
  "truthy v = (case v of None \<Rightarrow> False | Some s \<Rightarrow> s \<noteq> [])"

definition js_whitespace :: "char \<Rightarrow> bool" where
  "js_whitespace c =
     (c = CHR '' '' \<or> c = CHR 0x09 \<or> c = CHR 0x0A \<or> c = CHR 0x0B \<or> c = CHR 0x0C
      \<or> c = CHR 0x0D \<or> c = CHR 0xA0)"

definition upper_char :: "char \<Rightarrow> char" where
  "upper_char c =
     (if CHR ''a'' \<le> c \<and> c \<le> CHR ''z'' then char_of (of_char c - (32::nat)) else c)"

definition toUpperCase :: "string \<Rightarrow> string" where
  "toUpperCase s = map upper_char s"

definition trim :: "string \<Rightarrow> string" where
  "trim s = rev (dropWhile js_whitespace (rev (dropWhile js_whitespace s)))"

text \<open>\<open>phoneNumber.replace(/[\s+\-()]/g, '')\<close>\<close>

definition normalizePhoneNumber :: "string \<Rightarrow> string" where
  "normalizePhoneNumber phoneNumber =
     filter (\<lambda>c. \<not> (js_whitespace c \<or> c = CHR ''+'' \<or> c = CHR ''-'' \<or> c = CHR ''(''
                     \<or> c = CHR '')'')) phoneNumber"

subsection \<open>models/operator.js, models/route.js\<close>

text \<open>\<open>SELECT * FROM operators WHERE phone_number = ?\<close>, first row or null.\<close>

definition operator_findByPhone :: "string \<Rightarrow> database \<Rightarrow> operator_row option" where
  "operator_findByPhone phoneNumber d =
     find (\<lambda>r. op_phone_number r = phoneNumber) (operators d)"

definition route_findById :: "nat \<Rightarrow> database \<Rightarrow> route_row option" where
  "route_findById i d = find (\<lambda>r. r_id r = i) (routes d)"

subsection \<open>models/booking.js\<close>

definition booking_findById :: "nat \<Rightarrow> database \<Rightarrow> booking_row option" where
  "booking_findById i d = find (\<lambda>b. b_id b = i) (bookings d)"

text \<open>\<open>create\<close>: the INSERT, then \<open>findById(this.lastID)\<close>. \<open>created_at\<close> is filled by
  its default, \<open>CURRENT_TIMESTAMP\<close>.\<close>

definition booking_create ::
  "nat \<Rightarrow> string option \<Rightarrow> string \<Rightarrow> nat \<Rightarrow> string \<Rightarrow> int \<Rightarrow> string \<Rightarrow> database
     \<Rightarrow> booking_row option \<times> database" where
  "booking_create now customer_name customer_phone route_id journey_date seat_count status d =
     (let lastID = next_id (map b_id (bookings d));
          row = \<lparr>b_id = lastID, b_customer_name = customer_name,
                 b_customer_phone = customer_phone, b_route_id = route_id,
                 b_journey_date = journey_date, b_seat_count = seat_count,
                 b_status = status, b_created_at = now div 1000\<rparr>;
          d' = d\<lparr>bookings := bookings d @ [row]\<rparr>
      in (booking_findById lastID d', d'))"

text \<open>\<open>updateStatus\<close>: \<open>UPDATE bookings SET status = ? WHERE id = ?\<close>; null when no row
  has the id (\<open>this.changes === 0\<close>), else the row read back.\<close>

definition updateStatus :: "nat \<Rightarrow> string \<Rightarrow> database \<Rightarrow> booking_row option \<times> database" where
  "updateStatus i status d =
     (if \<not> list_ex (\<lambda>b. b_id b = i) (bookings d) then (None, d)
      else
        (let d' = d\<lparr>bookings :=
                     map (\<lambda>b. if b_id b = i then b\<lparr>b_status := status\<rparr> else b) (bookings d)\<rparr>
         in (booking_findById i d', d')))"

definition has_reminder_log :: "nat \<Rightarrow> database \<Rightarrow> bool" where
  "has_reminder_log i d =
     list_ex (\<lambda>ml. ml_booking_id ml = Some i \<and> ml_type ml = ''reminder'') (message_logs d)"

text \<open>The \<open>BETWEEN\<close> of \<open>findBookingsNeedingReminders\<close>: the departure is
  \<open>datetime(journey_date || ' ' || departure_time)\<close> with the departure time of the
  booking's route; a missing route or a NULL on either side leaves the row out.\<close>

definition departs_between :: "platform \<Rightarrow> string \<Rightarrow> string \<Rightarrow> booking_row \<Rightarrow> database \<Rightarrow> bool" where
  "departs_between pf lo hi b d =
     (case route_findById (b_route_id b) d of
        None \<Rightarrow> False
      | Some r \<Rightarrow>
          (case (sql_datetime pf (b_journey_date b @ '' '' @ r_departure_time r),
                 sql_datetime pf lo, sql_datetime pf hi) of
             (Some t, Some l, Some h) \<Rightarrow> l \<le> t \<and> t \<le> h
           | _ \<Rightarrow> False))"

definition findBookingsNeedingReminders :: "platform \<Rightarrow> nat \<Rightarrow> database \<Rightarrow> booking_row list" where
  "findBookingsNeedingReminders pf currentTime d =
     (let sixHoursLater = currentTime + 6 * 60 * 60 * 1000;
          currentTimeStr = isoDate pf currentTime @ '' '' @ timeString pf currentTime;
          sixHoursLaterStr = isoDate pf sixHoursLater @ '' '' @ timeString pf sixHoursLater
      in sort_key b_journey_date
           (filter (\<lambda>b. b_status b = ''confirmed'' \<and> \<not> has_reminder_log (b_id b) d
                         \<and> departs_between pf currentTimeStr sixHoursLaterStr b d)
              (bookings d)))"

subsection \<open>models/messageLog.js\<close>

definition messageLog_create :: "nat \<Rightarrow> nat option \<Rightarrow> string \<Rightarrow> database \<Rightarrow> database" where
  "messageLog_create now booking_id type d =
     d\<lparr>message_logs := message_logs d @
          [\<lparr>ml_id = next_id (map ml_id (message_logs d)), ml_booking_id = booking_id,
            ml_type = type, ml_sent_at = now\<rparr>]\<rparr>"

definition log_message :: "nat \<Rightarrow> nat \<Rightarrow> string \<Rightarrow> world \<Rightarrow> world" where
  "log_message now booking_id type w = w\<lparr>db := messageLog_create now (Some booking_id) type (db w)\<rparr>"

subsection \<open>services/whatsapp.js\<close>

text \<open>\<open>sendMessage\<close> throws on a missing credential or recipient and when the provider
  refuses or cannot be reached; the texts of the sources are never empty.\<close>

definition sendMessage :: "platform \<Rightarrow> string \<Rightarrow> wa_text \<Rightarrow> world \<Rightarrow> outcome" where
  "sendMessage pf phoneNumber message w =
     (if \<not> truthy (ACCESS_TOKEN (env pf)) then (w, Some MissingAccessToken)
      else if \<not> truthy (PHONE_NUMBER_ID (env pf)) then (w, Some MissingPhoneNumberId)
      else if phoneNumber = [] then (w, Some PhoneNumberRequired)
      else if deliver pf (normalizePhoneNumber phoneNumber) message
        then (w\<lparr>outbox := outbox w @ [(normalizePhoneNumber phoneNumber, message)]\<rparr>, None)
      else (logc LogWhatsAppApiError w, Some WhatsAppApiError))"

subsection \<open>routes/webhook.js: queries\<close>

text \<open>\<open>SELECT * FROM routes ORDER BY id ASC LIMIT 1\<close>\<close>

fun getFirstRoute_rows :: "route_row list \<Rightarrow> route_row option" where
  "getFirstRoute_rows [] = None"
| "getFirstRoute_rows (r # rs) =
     (case getFirstRoute_rows rs of
        None \<Rightarrow> Some r
      | Some m \<Rightarrow> if r_id r \<le> r_id m then Some r else Some m)"

definition getFirstRoute :: "database \<Rightarrow> route_row option" where
  "getFirstRoute d = getFirstRoute_rows (routes d)"

text \<open>\<open>SELECT * FROM bookings WHERE status = 'pending' ORDER BY created_at DESC LIMIT 1\<close>.
  SQL leaves the order of rows with equal \<open>created_at\<close> open; the model takes the one
  inserted first.\<close>

fun latest_created :: "booking_row list \<Rightarrow> booking_row option" where
  "latest_created [] = None"
| "latest_created (b # bs) =
     (case latest_created bs of
        None \<Rightarrow> Some b
      | Some m \<Rightarrow> if b_created_at b < b_created_at m then Some m else Some b)"

definition getLatestPendingBooking :: "database \<Rightarrow> booking_row option" where
  "getLatestPendingBooking d =
     latest_created (filter (\<lambda>b. b_status b = ''pending'') (bookings d))"

subsection \<open>routes/webhook.js: GET /whatsapp/webhook\<close>

record verify_query =
  hub_mode :: "string option"
  hub_verify_token :: "string option"
  hub_challenge :: "string option"

type_synonym http_response = "nat \<times> string option"

definition webhook_get :: "config \<Rightarrow> verify_query \<Rightarrow> world \<Rightarrow> http_response \<times> world" where
  "webhook_get cfg q w =
     (if truthy (hub_mode q) \<and> truthy (hub_verify_token q) then
        (if hub_mode q = Some ''subscribe'' \<and> hub_verify_token q = WEBHOOK_VERIFY_TOKEN cfg
         then ((200, hub_challenge q), logc LogWebhookVerified w)
         else ((403, Some ''Forbidden''), logc LogVerifyTokenMismatch w))
      else ((400, Some ''Bad Request''), logc LogVerifyMissingParameters w))"

subsection \<open>routes/webhook.js: the booking operations\<close>

definition operator_phone_or_default :: "config \<Rightarrow> string" where
  "operator_phone_or_default cfg =
     (if truthy (OPERATOR_PHONE cfg) then the (OPERATOR_PHONE cfg) else ''1234567890'')"

text \<open>The body of the \<open>try\<close> of \<open>createBooking\<close>. Reading a field of \<open>null\<close> is a
  \<open>TypeError\<close>.\<close>

definition createBooking_try :: "platform \<Rightarrow> nat \<Rightarrow> string \<Rightarrow> world \<Rightarrow> outcome" where
  "createBooking_try pf now customerPhone w =
     (case getFirstRoute (db w) of
        None \<Rightarrow> sendMessage pf customerPhone TxtNoRoutes (logc LogNoRoutes w)
      | Some route \<Rightarrow>
          (let journeyDate = isoDate pf (nextDay pf now);
               (created, d1) = booking_create now (Some ''Customer'') customerPhone (r_id route)
                                 journeyDate 1 ''pending'' (db w);
               w1 = w\<lparr>db := d1\<rparr>
           in case created of
                None \<Rightarrow> (w1, Some TypeError)
              | Some booking \<Rightarrow>
                  (let w2 = logc (LogBookingCreated (b_id booking) customerPhone) w1
                   in case operator_findByPhone (operator_phone_or_default (env pf)) (db w2) of
                        None \<Rightarrow> (logc LogNoOperator w2, None)
                      | Some operator \<Rightarrow>
                          (case route_findById (r_id route) (db w2) of
                             None \<Rightarrow> (w2, Some TypeError)
                           | Some routeDetails \<Rightarrow>
                               andThen
                                 (sendMessage pf (op_phone_number operator)
                                    (TxtOperatorRequest (b_id booking) customerPhone
                                       (r_source routeDetails) (r_destination routeDetails)
                                       journeyDate (r_departure_time routeDetails)
                                       (b_seat_count booking) (r_price routeDetails)) w2)
                                 (\<lambda>w3. andThen
                                    (sendMessage pf customerPhone
                                       (TxtCustomerReceived (b_id booking)
                                          (r_source routeDetails) (r_destination routeDetails)
                                          journeyDate (r_departure_time routeDetails)
                                          (b_seat_count booking) (r_price routeDetails))
                                       (log_message now (b_id booking) ''notification'' w3))
                                    (\<lambda>w5. (logc LogNotificationSent w5, None)))))))"

text \<open>The \<open>catch\<close> clauses: the error is logged and an apology is tried, whose own failure
  is logged too.\<close>

definition apologise :: "platform \<Rightarrow> string \<Rightarrow> wa_text \<Rightarrow> log_line \<Rightarrow> (error \<Rightarrow> log_line) \<Rightarrow> world \<Rightarrow> world" where
  "apologise pf phone text l l2 w =
     (case sendMessage pf phone text (logc l w) of
        (w', None) \<Rightarrow> w'
      | (w', Some e) \<Rightarrow> logc (l2 e) w')"

definition createBooking :: "platform \<Rightarrow> nat \<Rightarrow> string \<Rightarrow> world \<Rightarrow> world" where
  "createBooking pf now customerPhone w =
     (case createBooking_try pf now customerPhone w of
        (w', None) \<Rightarrow> w'
      | (w', Some e) \<Rightarrow>
          apologise pf customerPhone TxtBookingError (LogErrorCreatingBooking e)
            LogErrorNotifyingCustomer w')"

definition confirmBooking_try :: "platform \<Rightarrow> nat \<Rightarrow> string \<Rightarrow> world \<Rightarrow> outcome" where
  "confirmBooking_try pf now operatorPhone w =
     (case getLatestPendingBooking (db w) of
        None \<Rightarrow> sendMessage pf operatorPhone TxtNoPendingConfirm (logc LogNoPendingConfirm w)
      | Some booking \<Rightarrow>
          (let (updatedBooking, d1) = updateStatus (b_id booking) ''confirmed'' (db w);
               w1 = w\<lparr>db := d1\<rparr>
           in case updatedBooking of
                None \<Rightarrow> (logc LogUpdateFailed w1, None)
              | Some _ \<Rightarrow>
                  (let w2 = logc (LogConfirmed (b_id booking) operatorPhone) w1
                   in case route_findById (b_route_id booking) (db w2) of
                        None \<Rightarrow> (w2, Some TypeError)
                      | Some route \<Rightarrow>
                          andThen
                            (sendMessage pf (b_customer_phone booking)
                               (TxtCustomerConfirmed (b_id booking) (r_source route)
                                  (r_destination route) (b_journey_date booking)
                                  (r_departure_time route) (b_seat_count booking)
                                  (r_price route)) w2)
                            (\<lambda>w3. andThen
                               (sendMessage pf operatorPhone (TxtOperatorConfirmed (b_id booking))
                                  (log_message now (b_id booking) ''confirmation'' w3))
                               (\<lambda>w5. (logc (LogConfirmationSent (b_customer_phone booking)) w5,
                                       None))))))"

definition confirmBooking :: "platform \<Rightarrow> nat \<Rightarrow> string \<Rightarrow> world \<Rightarrow> world" where
  "confirmBooking pf now operatorPhone w =
     (case confirmBooking_try pf now operatorPhone w of
        (w', None) \<Rightarrow> w'
      | (w', Some e) \<Rightarrow>
          apologise pf operatorPhone TxtConfirmError (LogErrorConfirming e)
            LogErrorNotifyingOperator w')"

definition rejectBooking_try :: "platform \<Rightarrow> nat \<Rightarrow> string \<Rightarrow> world \<Rightarrow> outcome" where
  "rejectBooking_try pf now operatorPhone w =
     (case getLatestPendingBooking (db w) of
        None \<Rightarrow> sendMessage pf operatorPhone TxtNoPendingReject (logc LogNoPendingReject w)
      | Some booking \<Rightarrow>
          (let (updatedBooking, d1) = updateStatus (b_id booking) ''rejected'' (db w);
               w1 = w\<lparr>db := d1\<rparr>
           in case updatedBooking of
                None \<Rightarrow> (logc LogUpdateFailed w1, None)
              | Some _ \<Rightarrow>
                  (let w2 = logc (LogRejected (b_id booking) operatorPhone) w1
                   in case route_findById (b_route_id booking) (db w2) of
                        None \<Rightarrow> (w2, Some TypeError)
                      | Some route \<Rightarrow>
                          andThen
                            (sendMessage pf (b_customer_phone booking)
                               (TxtCustomerRejected (b_id booking) (r_source route)
                                  (r_destination route) (b_journey_date booking)) w2)
                            (\<lambda>w3. andThen
                               (sendMessage pf operatorPhone (TxtOperatorRejected (b_id booking))
                                  (log_message now (b_id booking) ''rejection'' w3))
                               (\<lambda>w5. (logc (LogRejectionSent (b_customer_phone booking)) w5,
                                       None))))))"

definition rejectBooking :: "platform \<Rightarrow> nat \<Rightarrow> string \<Rightarrow> world \<Rightarrow> world" where
  "rejectBooking pf now operatorPhone w =
     (case rejectBooking_try pf now operatorPhone w of
        (w', None) \<Rightarrow> w'
      | (w', Some e) \<Rightarrow>
          apologise pf operatorPhone TxtRejectError (LogErrorRejecting e)
            LogErrorNotifyingOperator w')"

subsection \<open>routes/webhook.js: POST /whatsapp/webhook\<close>

definition handleCustomerMessage :: "platform \<Rightarrow> nat \<Rightarrow> string \<Rightarrow> string \<Rightarrow> world \<Rightarrow> world" where
  "handleCustomerMessage pf now phoneNumber messageText w =
     (if messageText = ''BOOK'' then createBooking pf now phoneNumber w
      else logc (LogCustomerUnrecognized phoneNumber messageText) w)"

definition handleOperatorMessage :: "platform \<Rightarrow> nat \<Rightarrow> string \<Rightarrow> string \<Rightarrow> world \<Rightarrow> world" where
  "handleOperatorMessage pf now phoneNumber messageText w =
     (if messageText = ''YES'' then confirmBooking pf now phoneNumber w
      else if messageText = ''NO'' then rejectBooking pf now phoneNumber w
      else logc (LogOperatorUnrecognized phoneNumber messageText) w)"

text \<open>
  The request body, by the shapes the handler tells apart: no body at all, a body
  without \<open>entry[0].changes[0]\<close>, a change without \<open>value.messages[0]\<close>, and a first
  message with its \<open>from\<close>, \<open>type\<close> and \<open>text.body\<close> (each possibly absent).
\<close>

record wa_message =
  msg_from :: "string option"
  msg_type :: "string option"
  msg_text_body :: "string option"

datatype payload =
    NoBody
  | NoChange
  | NoMessage
  | Message wa_message

text \<open>The body of the \<open>try\<close>, after the response has been sent.\<close>

definition webhook_post_try :: "platform \<Rightarrow> nat \<Rightarrow> payload \<Rightarrow> world \<Rightarrow> outcome" where
  "webhook_post_try pf now body w =
     (case body of
        NoBody \<Rightarrow> (w, Some TypeError)
      | NoChange \<Rightarrow> (logc LogInvalidPayload w, None)
      | NoMessage \<Rightarrow> (logc LogNoMessages w, None)
      | Message message \<Rightarrow>
          (if msg_type message \<noteq> Some ''text''
           then (logc (LogIgnoringNonText (msg_type message)) w, None)
           else
             (let messageText = (if truthy (msg_text_body message)
                                 then the (msg_text_body message) else [])
              in case msg_from message of
                   None \<Rightarrow> (w, Some TypeError)
                 | Some from \<Rightarrow>
                     (let normalizedFrom = normalizePhoneNumber from;
                          w1 = logc (LogReceived normalizedFrom messageText) w
                      in case operator_findByPhone normalizedFrom (db w1) of
                           Some _ \<Rightarrow>
                             (handleOperatorMessage pf now normalizedFrom
                                (trim (toUpperCase messageText)) w1, None)
                         | None \<Rightarrow>
                             (handleCustomerMessage pf now normalizedFrom
                                (trim (toUpperCase messageText)) w1, None)))))"

text \<open>\<open>res.status(200).send('OK')\<close> is the first statement; the \<open>catch\<close> only logs.\<close>

definition webhook_post :: "platform \<Rightarrow> nat \<Rightarrow> payload \<Rightarrow> world \<Rightarrow> http_response \<times> world" where
  "webhook_post pf now body w =
     (let res = (200, Some ''OK'')
      in case webhook_post_try pf now body w of
           (w', None) \<Rightarrow> (res, w')
         | (w', Some e) \<Rightarrow> (res, logc (LogErrorProcessingWebhook e) w'))"

subsection \<open>services/reminder.js\<close>

definition remind :: "platform \<Rightarrow> nat \<Rightarrow> booking_row \<Rightarrow> world \<Rightarrow> world" where
  "remind pf now booking w =
     (case route_findById (b_route_id booking) (db w) of
        None \<Rightarrow> logc (LogRouteNotFound (b_id booking)) w
      | Some route \<Rightarrow>
          (case sendMessage pf (b_customer_phone booking)
                  (TxtReminder (r_source route) (r_destination route)
                     (r_departure_time route) (b_journey_date booking)) w of
             (w1, Some e) \<Rightarrow> logc (LogReminderFailed (b_id booking) e) w1
           | (w1, None) \<Rightarrow>
               logc (LogReminderSent (b_id booking))
                 (log_message now (b_id booking) ''reminder'' w1)))"

fun remind_all :: "platform \<Rightarrow> nat \<Rightarrow> booking_row list \<Rightarrow> world \<Rightarrow> world" where
  "remind_all pf now [] w = w"
| "remind_all pf now (booking # rest) w = remind_all pf now rest (remind pf now booking w)"

definition sendReminders :: "platform \<Rightarrow> nat \<Rightarrow> world \<Rightarrow> world" where
  "sendReminders pf now w =
     (let bookings = findBookingsNeedingReminders pf now (db w)
      in if bookings = [] then w else remind_all pf now bookings w)"

subsection \<open>server.js: the scheduled jobs\<close>

datatype job = SendReminders

text \<open>\<open>startServer\<close> registers one \<open>cron.schedule\<close>: the reminders, every 30 minutes.\<close>

definition scheduled_jobs :: "(string \<times> job) list" where
  "scheduled_jobs = [(''*/30 * * * *'', SendReminders)]"

definition run_job :: "platform \<Rightarrow> nat \<Rightarrow> job \<Rightarrow> world \<Rightarrow> world" where
  "run_job pf now j w = (case j of SendReminders \<Rightarrow> sendReminders pf now w)"

text \<open>One firing of every registered schedule.\<close>

definition run_scheduled_jobs :: "platform \<Rightarrow> nat \<Rightarrow> world \<Rightarrow> world" where
  "run_scheduled_jobs pf now w = fold (\<lambda>(_, j). run_job pf now j) scheduled_jobs w"

subsection \<open>routes/booking.js: the internal endpoints\<close>

record create_request =
  cr_customer_phone :: "string option"
  cr_customer_name :: "string option"
  cr_route_id :: "nat option"
  cr_journey_date :: "string option"
  cr_seat_count :: "int option"

record decide_request =
  dr_operator_phone :: "string option"
  dr_booking_id :: "nat option"

datatype api_body =
    ErrCustomerPhoneRequired
  | ErrRouteNotFound
  | ErrNoRoutes
  | ErrNoPendingBooking
  | ErrNotPending nat string
  | ErrUpdateFailed
  | ErrRouteNotFoundForBooking
  | ErrInternal error
  | OkCreated booking_row
  | OkCreatedOperatorMissing booking_row
  | OkConfirmed booking_row
  | OkRejected booking_row

type_synonym api_response = "nat \<times> api_body"

text \<open>A number that is \<open>undefined\<close> or zero is falsy.\<close>

definition truthy_num :: "'a::zero option \<Rightarrow> bool" where
  "truthy_num v = (case v of None \<Rightarrow> False | Some n \<Rightarrow> n \<noteq> 0)"

definition booking_create_try ::
  "platform \<Rightarrow> nat \<Rightarrow> create_request \<Rightarrow> world \<Rightarrow> world \<times> (error + api_response)" where
  "booking_create_try pf now req w =
     (if \<not> truthy (cr_customer_phone req) then (w, Inr (400, ErrCustomerPhoneRequired))
      else
        (let customer_phone = the (cr_customer_phone req);
             found = (if truthy_num (cr_route_id req)
                      then route_findById (the (cr_route_id req)) (db w)
                      else getFirstRoute (db w))
         in case found of
              None \<Rightarrow>
                (w, Inr (404, if truthy_num (cr_route_id req) then ErrRouteNotFound else ErrNoRoutes))
            | Some route \<Rightarrow>
                (let journeyDate = (if truthy (cr_journey_date req) then the (cr_journey_date req)
                                    else isoDate pf (nextDay pf now));
                     (created, d1) =
                        booking_create now
                          (Some (if truthy (cr_customer_name req) then the (cr_customer_name req)
                                 else ''Customer''))
                          customer_phone (r_id route) journeyDate
                          (if truthy_num (cr_seat_count req) then the (cr_seat_count req) else 1)
                          ''pending'' (db w);
                     w1 = w\<lparr>db := d1\<rparr>
                 in case created of
                      None \<Rightarrow> (w1, Inl TypeError)
                    | Some booking \<Rightarrow>
                        (let w2 = logc (LogBookingCreated (b_id booking) customer_phone) w1
                         in case operator_findByPhone (operator_phone_or_default (env pf)) (db w2) of
                              None \<Rightarrow>
                                (logc LogNoOperator w2, Inr (200, OkCreatedOperatorMissing booking))
                            | Some operator \<Rightarrow>
                                (case route_findById (r_id route) (db w2) of
                                   None \<Rightarrow> (w2, Inl TypeError)
                                 | Some routeDetails \<Rightarrow>
                                     (case andThen
                                        (sendMessage pf (op_phone_number operator)
                                           (TxtOperatorRequest (b_id booking) customer_phone
                                              (r_source routeDetails) (r_destination routeDetails)
                                              journeyDate (r_departure_time routeDetails)
                                              (b_seat_count booking) (r_price routeDetails)) w2)
                                        (\<lambda>w3. sendMessage pf customer_phone
                                           (TxtCustomerReceived (b_id booking)
                                              (r_source routeDetails) (r_destination routeDetails)
                                              journeyDate (r_departure_time routeDetails)
                                              (b_seat_count booking) (r_price routeDetails))
                                           (log_message now (b_id booking) ''notification'' w3)) of
                                        (w5, Some e) \<Rightarrow> (w5, Inl e)
                                      | (w5, None) \<Rightarrow>
                                          (logc LogNotificationSent w5,
                                           Inr (201, OkCreated booking))))))))"

definition booking_create_endpoint ::
  "platform \<Rightarrow> nat \<Rightarrow> create_request \<Rightarrow> world \<Rightarrow> api_response \<times> world" where
  "booking_create_endpoint pf now req w =
     (case booking_create_try pf now req w of
        (w', Inr res) \<Rightarrow> (res, w')
      | (w', Inl e) \<Rightarrow> ((500, ErrInternal e), logc (LogErrorCreatingBooking e) w'))"

text \<open>\<open>getLatestPendingBooking(bookingId)\<close> of this file: the booking with the given id,
  whatever its status, or the latest pending one.\<close>

definition booking_or_latest_pending :: "nat option \<Rightarrow> database \<Rightarrow> booking_row option" where
  "booking_or_latest_pending bookingId d =
     (if truthy_num bookingId then booking_findById (the bookingId) d
      else getLatestPendingBooking d)"

definition booking_confirm_try ::
  "platform \<Rightarrow> nat \<Rightarrow> decide_request \<Rightarrow> world \<Rightarrow> world \<times> (error + api_response)" where
  "booking_confirm_try pf now req w =
     (case booking_or_latest_pending (dr_booking_id req) (db w) of
        None \<Rightarrow> (w, Inr (404, ErrNoPendingBooking))
      | Some booking \<Rightarrow>
          (if b_status booking \<noteq> ''pending''
           then (w, Inr (400, ErrNotPending (b_id booking) (b_status booking)))
           else
             (let (updated, d1) = updateStatus (b_id booking) ''confirmed'' (db w);
                  w1 = w\<lparr>db := d1\<rparr>
              in case updated of
                   None \<Rightarrow> (w1, Inr (500, ErrUpdateFailed))
                 | Some updatedBooking \<Rightarrow>
                     (let w2 = logc (LogConfirmedBy (b_id booking) (dr_operator_phone req)) w1
                      in case route_findById (b_route_id booking) (db w2) of
                           None \<Rightarrow> (w2, Inr (404, ErrRouteNotFoundForBooking))
                         | Some route \<Rightarrow>
                             (case andThen
                                (sendMessage pf (b_customer_phone booking)
                                   (TxtCustomerConfirmed (b_id booking) (r_source route)
                                      (r_destination route) (b_journey_date booking)
                                      (r_departure_time route) (b_seat_count booking)
                                      (r_price route)) w2)
                                (\<lambda>w3. if truthy (dr_operator_phone req)
                                   then sendMessage pf (the (dr_operator_phone req))
                                          (TxtOperatorConfirmed (b_id booking))
                                          (log_message now (b_id booking) ''confirmation'' w3)
                                   else (log_message now (b_id booking) ''confirmation'' w3, None)) of
                                (w5, Some e) \<Rightarrow> (w5, Inl e)
                              | (w5, None) \<Rightarrow>
                                  (logc (LogConfirmationSent (b_customer_phone booking)) w5,
                                   Inr (200, OkConfirmed updatedBooking)))))))"

definition booking_confirm_endpoint ::
  "platform \<Rightarrow> nat \<Rightarrow> decide_request \<Rightarrow> world \<Rightarrow> api_response \<times> world" where
  "booking_confirm_endpoint pf now req w =
     (case booking_confirm_try pf now req w of
        (w', Inr res) \<Rightarrow> (res, w')
      | (w', Inl e) \<Rightarrow> ((500, ErrInternal e), logc (LogErrorConfirming e) w'))"

definition booking_reject_try ::
  "platform \<Rightarrow> nat \<Rightarrow> decide_request \<Rightarrow> world \<Rightarrow> world \<times> (error + api_response)" where
  "booking_reject_try pf now req w =
     (case booking_or_latest_pending (dr_booking_id req) (db w) of
        None \<Rightarrow> (w, Inr (404, ErrNoPendingBooking))
      | Some booking \<Rightarrow>
          (if b_status booking \<noteq> ''pending''
           then (w, Inr (400, ErrNotPending (b_id booking) (b_status booking)))
           else
             (let (updated, d1) = updateStatus (b_id booking) ''rejected'' (db w);
                  w1 = w\<lparr>db := d1\<rparr>
              in case updated of
                   None \<Rightarrow> (w1, Inr (500, ErrUpdateFailed))
                 | Some updatedBooking \<Rightarrow>
                     (let w2 = logc (LogRejectedBy (b_id booking) (dr_operator_phone req)) w1
                      in case route_findById (b_route_id booking) (db w2) of
                           None \<Rightarrow> (w2, Inr (404, ErrRouteNotFoundForBooking))
                         | Some route \<Rightarrow>
                             (case andThen
                                (sendMessage pf (b_customer_phone booking)
                                   (TxtCustomerRejected (b_id booking) (r_source route)
                                      (r_destination route) (b_journey_date booking)) w2)
                                (\<lambda>w3. if truthy (dr_operator_phone req)
                                   then sendMessage pf (the (dr_operator_phone req))
                                          (TxtOperatorRejected (b_id booking))
                                          (log_message now (b_id booking) ''rejection'' w3)
                                   else (log_message now (b_id booking) ''rejection'' w3, None)) of
                                (w5, Some e) \<Rightarrow> (w5, Inl e)
                              | (w5, None) \<Rightarrow>
                                  (logc (LogRejectionSent (b_customer_phone booking)) w5,
                                   Inr (200, OkRejected updatedBooking)))))))"

definition booking_reject_endpoint ::
  "platform \<Rightarrow> nat \<Rightarrow> decide_request \<Rightarrow> world \<Rightarrow> api_response \<times> world" where
  "booking_reject_endpoint pf now req w =
     (case booking_reject_try pf now req w of
        (w', Inr res) \<Rightarrow> (res, w')
      | (w', Inl e) \<Rightarrow> ((500, ErrInternal e), logc (LogErrorRejecting e) w'))"

subsection \<open>server.js: everything that can happen\<close>

text \<open>The requests of the mounted routers and a firing of the schedules. An event comes
  with the platform and the time at which it is handled.\<close>

datatype event =
    WebhookGet verify_query
  | WebhookPost payload
  | BookingCreate create_request
  | BookingConfirm decide_request
  | BookingReject decide_request
  | Health
  | Schedule

definition step :: "platform \<Rightarrow> nat \<Rightarrow> event \<Rightarrow> world \<Rightarrow> world" where
  "step pf now ev w =
     (case ev of
        WebhookGet q \<Rightarrow> snd (webhook_get (env pf) q w)
      | WebhookPost body \<Rightarrow> snd (webhook_post pf now body w)
      | BookingCreate req \<Rightarrow> snd (booking_create_endpoint pf now req w)
      | BookingConfirm req \<Rightarrow> snd (booking_confirm_endpoint pf now req w)
      | BookingReject req \<Rightarrow> snd (booking_reject_endpoint pf now req w)
      | Health \<Rightarrow> w
      | Schedule \<Rightarrow> run_scheduled_jobs pf now w)"

fun run :: "(platform \<times> nat \<times> event) list \<Rightarrow> world \<Rightarrow> world" where
  "run [] w = w"
| "run ((pf, now, ev) # rest) w = run rest (step pf now ev w)"

subsection \<open>database.js: the seed\<close>

definition empty_database :: database where
  "empty_database = \<lparr>operators = [], routes = [], bookings = [], message_logs = []\<rparr>"

text \<open>\<open>seedDefaultData\<close>: unless an operator with the configured phone exists, insert the
  default operator and the default route.\<close>

definition seedDefaultData :: "config \<Rightarrow> nat \<Rightarrow> database \<Rightarrow> database" where
  "seedDefaultData cfg now d =
     (case operator_findByPhone (operator_phone_or_default cfg) d of
        Some _ \<Rightarrow> d
      | None \<Rightarrow>
          (let operatorId = next_id (map op_id (operators d));
               d1 = d\<lparr>operators := operators d @
                      [\<lparr>op_id = operatorId,
                        op_name = (if truthy (OPERATOR_NAME cfg) then the (OPERATOR_NAME cfg)
                                   else ''Default Operator''),
                        op_phone_number = operator_phone_or_default cfg,
                        op_routes = None, op_approved = 1, op_created_at = now div 1000\<rparr>]\<rparr>
           in d1\<lparr>routes := routes d1 @
                  [\<lparr>r_id = next_id (map r_id (routes d1)), r_operator_id = operatorId,
                    r_source = ''City A'', r_destination = ''City B'',
                    r_departure_time = ''08:00'', r_price = 500,
                    r_created_at = now div 1000\<rparr>]\<rparr>))"

subsection \<open>A concrete installation\<close>

text \<open>
  A configured installation whose provider accepts every text, on a machine running in
  UTC. The platform functions are tabulated at the instants used below: 06:00, 12:00 and
  18:00 on 2024-01-15 and on 2024-01-16, and the departures at 08:00 of the two days.
\<close>

definition demo_config :: config where
  "demo_config =
     \<lparr>WEBHOOK_VERIFY_TOKEN = Some ''s3cret'', ACCESS_TOKEN = Some ''EAAG'',
      PHONE_NUMBER_ID = Some ''105500'', OPERATOR_PHONE = Some ''919000000001'',
      OPERATOR_NAME = None\<rparr>"

definition demo_now :: nat where
  "demo_now = 1705298400000"

definition demo_noon :: nat where
  "demo_noon = 1705320000000"

definition demo_morning :: nat where
  "demo_morning = 1705384800000"

definition demo_platform :: platform where
  "demo_platform =
     \<lparr>env = demo_config,
      deliver = (\<lambda>_ _. True),
      isoDate = (\<lambda>t. if t div 86400000 = 19737 then ''2024-01-15'' else ''2024-01-16''),
      timeString = (\<lambda>t. if t mod 86400000 = 21600000 then ''06:00:00''
                        else if t mod 86400000 = 43200000 then ''12:00:00'' else ''18:00:00''),
      nextDay = (\<lambda>t. t + 86400000),
      sql_datetime = map_of
        [(''2024-01-15 06:00:00'', 1705298400), (''2024-01-15 08:00'', 1705305600),
         (''2024-01-15 12:00:00'', 1705320000), (''2024-01-15 18:00:00'', 1705341600),
         (''2024-01-16 06:00:00'', 1705384800), (''2024-01-16 08:00'', 1705392000),
         (''2024-01-16 12:00:00'', 1705406400), (''2024-01-16 18:00:00'', 1705428000)]\<rparr>"

text \<open>The same installation with the provider unreachable.\<close>

definition offline_platform :: platform where
  "offline_platform = demo_platform\<lparr>deliver := (\<lambda>_ _. False)\<rparr>"

definition demo_world :: world where
  "demo_world = \<lparr>db = seedDefaultData demo_config 0 empty_database, outbox = [], console = []\<rparr>"

definition text_from :: "string \<Rightarrow> string \<Rightarrow> payload" where
  "text_from phone body =
     Message \<lparr>msg_from = Some phone, msg_type = Some ''text'', msg_text_body = Some body\<rparr>"

subsection \<open>Notions used in the statements\<close>

text \<open>The effect of the UPDATE of \<open>updateStatus\<close> on the table.\<close>

definition with_status :: "nat \<Rightarrow> string \<Rightarrow> booking_row list \<Rightarrow> booking_row list" where
  "with_status i s bs = map (\<lambda>b. if b_id b = i then b\<lparr>b_status := s\<rparr> else b) bs"

text \<open>The ways in which one event may change the bookings table: not at all, by one
  new pending row with a fresh id, or by moving a pending row to \<open>confirmed\<close> or
  \<open>rejected\<close>.\<close>

definition evolves :: "booking_row list \<Rightarrow> booking_row list \<Rightarrow> bool" where
  "evolves bs bs' \<longleftrightarrow>
     bs' = bs
     \<or> (\<exists>row. bs' = bs @ [row] \<and> b_id row = next_id (map b_id bs) \<and> b_status row = ''pending'')
     \<or> (\<exists>p s. p \<in> set bs \<and> b_status p = ''pending'' \<and> (s = ''confirmed'' \<or> s = ''rejected'')
            \<and> bs' = with_status (b_id p) s bs)"

text \<open>The seats of the bookings in a given status for a route on a date.\<close>

definition seats_with_status :: "string \<Rightarrow> nat \<Rightarrow> string \<Rightarrow> database \<Rightarrow> int" where
  "seats_with_status s route_id journey_date d =
     sum_list (map b_seat_count
       (filter (\<lambda>b. b_status b = s \<and> b_route_id b = route_id \<and> b_journey_date b = journey_date)
          (bookings d)))"


definition reminder_logs :: "nat \<Rightarrow> database \<Rightarrow> nat" where
  "reminder_logs i d =
     length (filter (\<lambda>ml. ml_booking_id ml = Some i \<and> ml_type ml = ''reminder'') (message_logs d))"

text \<open>The sender and the text, as the handler normalises them, of a webhook delivery
  whose first message is a text with a sender.\<close>

definition inbound_text :: "payload \<Rightarrow> (string \<times> string) option" where
  "inbound_text body =
     (case body of
        Message m \<Rightarrow>
          (if msg_type m = Some ''text'' then
             (case msg_from m of
                None \<Rightarrow> None
              | Some sender \<Rightarrow>
                  Some (normalizePhoneNumber sender,
                        trim (toUpperCase (if truthy (msg_text_body m)
                                           then the (msg_text_body m) else []))))
           else None)
      | _ \<Rightarrow> None)"

text \<open>The same, when the sender is a row of the operators table, and when it is not.\<close>

definition operator_says :: "payload \<Rightarrow> database \<Rightarrow> (string \<times> string) option" where
  "operator_says body d =
     (case inbound_text body of
        None \<Rightarrow> None
      | Some (phone, text) \<Rightarrow>
          (case operator_findByPhone phone d of None \<Rightarrow> None | Some _ \<Rightarrow> Some (phone, text)))"

definition customer_says :: "payload \<Rightarrow> database \<Rightarrow> (string \<times> string) option" where
  "customer_says body d =
     (case inbound_text body of
        None \<Rightarrow> None
      | Some (phone, text) \<Rightarrow>
          (case operator_findByPhone phone d of None \<Rightarrow> Some (phone, text) | Some _ \<Rightarrow> None))"

text \<open>Two states with the same database and the same texts sent.\<close>

definition same_data :: "world \<Rightarrow> world \<Rightarrow> bool" where
  "same_data w w' \<longleftrightarrow> db w' = db w \<and> outbox w' = outbox w"

text \<open>The provider is configured and accepts this text for this recipient, so that
  \<open>sendMessage\<close> does not throw.\<close>

definition accepts :: "platform \<Rightarrow> string \<Rightarrow> wa_text \<Rightarrow> bool" where
  "accepts pf phoneNumber message \<longleftrightarrow>
     truthy (ACCESS_TOKEN (env pf)) \<and> truthy (PHONE_NUMBER_ID (env pf)) \<and> phoneNumber \<noteq> []
     \<and> deliver pf (normalizePhoneNumber phoneNumber) message"

text \<open>The row that \<open>createBooking\<close> inserts for a customer when \<open>route\<close> is the first
  route.\<close>

definition new_booking :: "platform \<Rightarrow> nat \<Rightarrow> string \<Rightarrow> route_row \<Rightarrow> database \<Rightarrow> booking_row" where
  "new_booking pf now customerPhone route d =
     \<lparr>b_id = next_id (map b_id (bookings d)), b_customer_name = Some ''Customer'',
      b_customer_phone = customerPhone, b_route_id = r_id route,
      b_journey_date = isoDate pf (nextDay pf now), b_seat_count = 1,
      b_status = ''pending'', b_created_at = now div 1000\<rparr>"


text \<open>A step that touches neither table and only adds to the texts sent.\<close>

definition only_sends :: "world \<Rightarrow> world \<Rightarrow> bool" where
  "only_sends w w' \<longleftrightarrow> db w' = db w \<and> (\<exists>rest. outbox w' = outbox w @ rest)"



section \<open>Properties\<close>

subsection \<open>Effects on the tables\<close>

lemma db_logc [simp]: "db (logc l w) = db w"
  by (simp add: logc_def)

lemma outbox_logc [simp]: "outbox (logc l w) = outbox w"
  by (simp add: logc_def)

lemma db_sendMessage [simp]: "db (fst (sendMessage pf p m w)) = db w"
  by (simp add: sendMessage_def)

lemma bookings_log_message [simp]: "bookings (db (log_message now i t w)) = bookings (db w)"
  by (simp add: log_message_def messageLog_create_def)

lemma routes_log_message [simp]: "routes (db (log_message now i t w)) = routes (db w)"
  by (simp add: log_message_def messageLog_create_def)

lemma operators_log_message [simp]: "operators (db (log_message now i t w)) = operators (db w)"
  by (simp add: log_message_def messageLog_create_def)

lemma db_apologise [simp]: "db (apologise pf p t l l2 w) = db w"
proof -
  obtain w' r where e: "sendMessage pf p t (logc l w) = (w', r)"
    by (cases "sendMessage pf p t (logc l w)")
  have "db (fst (sendMessage pf p t (logc l w))) = db w" by simp
  with e have "db w' = db w" by simp
  with e show ?thesis by (cases r) (simp_all add: apologise_def)
qed

lemma bookings_andThen:
  assumes "bookings (db (fst r)) = X"
    and "\<And>w. bookings (db w) = X \<Longrightarrow> bookings (db (fst (f w))) = X"
  shows "bookings (db (fst (andThen r f))) = X"
  using assms by (cases r) (auto simp: andThen_def split: option.splits)

lemma bookings_createBooking_try:
  "bookings (db (fst (createBooking_try pf now ph w))) =
     (case getFirstRoute (db w) of None \<Rightarrow> bookings (db w)
      | Some r \<Rightarrow> bookings (db w) @ [new_booking pf now ph r (db w)])"
  unfolding createBooking_try_def
  by (auto simp: booking_create_def Let_def new_booking_def intro!: bookings_andThen split: option.splits prod.splits)

lemma bookings_createBooking:
  "bookings (db (createBooking pf now ph w)) =
     (case getFirstRoute (db w) of None \<Rightarrow> bookings (db w)
      | Some r \<Rightarrow> bookings (db w) @ [new_booking pf now ph r (db w)])"
proof -
  obtain w' r where e: "createBooking_try pf now ph w = (w', r)" by (cases "createBooking_try pf now ph w")
  then have "w' = fst (createBooking_try pf now ph w)" by simp
  then have "bookings (db w') = (case getFirstRoute (db w) of None \<Rightarrow> bookings (db w)
      | Some r \<Rightarrow> bookings (db w) @ [new_booking pf now ph r (db w)])"
    by (simp only: bookings_createBooking_try)
  then show ?thesis using e by (cases r) (simp_all add: createBooking_def)
qed

lemma bookings_updateStatus:
  "bookings (snd (updateStatus i s d)) = with_status i s (bookings d)"
proof (cases "list_ex (\<lambda>b. b_id b = i) (bookings d)")
  case True
  then show ?thesis by (simp add: updateStatus_def with_status_def Let_def)
next
  case False
  then have "\<forall>b \<in> set (bookings d). b_id b \<noteq> i" by (simp add: list_ex_iff)
  then have "with_status i s (bookings d) = bookings d"
    unfolding with_status_def by (intro map_idI) simp
  with False show ?thesis by (simp add: updateStatus_def)
qed


lemma bookings_confirmBooking_try:
  "bookings (db (fst (confirmBooking_try pf now ph w))) =
     (case getLatestPendingBooking (db w) of None \<Rightarrow> bookings (db w)
      | Some b \<Rightarrow> with_status (b_id b) ''confirmed'' (bookings (db w)))"
proof (cases "getLatestPendingBooking (db w)")
  case None
  then show ?thesis by (simp add: confirmBooking_try_def)
next
  case (Some b)
  obtain u d1 where u: "updateStatus (b_id b) ''confirmed'' (db w) = (u, d1)"
    by (cases "updateStatus (b_id b) ''confirmed'' (db w)")
  then have d1: "bookings d1 = with_status (b_id b) ''confirmed'' (bookings (db w))"
    using bookings_updateStatus [of "b_id b" "''confirmed''" "db w"] by simp
  show ?thesis
    using Some u d1 unfolding confirmBooking_try_def
    by (auto simp: Let_def intro!: bookings_andThen split: option.splits)
qed

lemma bookings_rejectBooking_try:
  "bookings (db (fst (rejectBooking_try pf now ph w))) =
     (case getLatestPendingBooking (db w) of None \<Rightarrow> bookings (db w)
      | Some b \<Rightarrow> with_status (b_id b) ''rejected'' (bookings (db w)))"
proof (cases "getLatestPendingBooking (db w)")
  case None
  then show ?thesis by (simp add: rejectBooking_try_def)
next
  case (Some b)
  obtain u d1 where u: "updateStatus (b_id b) ''rejected'' (db w) = (u, d1)"
    by (cases "updateStatus (b_id b) ''rejected'' (db w)")
  then have d1: "bookings d1 = with_status (b_id b) ''rejected'' (bookings (db w))"
    using bookings_updateStatus [of "b_id b" "''rejected''" "db w"] by simp
  show ?thesis
    using Some u d1 unfolding rejectBooking_try_def
    by (auto simp: Let_def intro!: bookings_andThen split: option.splits)
qed

lemma catch_db:
  assumes "r = (w', e)"
  shows "db (case r of (w', None) \<Rightarrow> w' | (w', Some e) \<Rightarrow> apologise pf p t (l e) l2 w') = db (fst r)"
  using assms by (cases e) simp_all

lemma bookings_confirmBooking:
  "bookings (db (confirmBooking pf now ph w)) =
     (case getLatestPendingBooking (db w) of None \<Rightarrow> bookings (db w)
      | Some b \<Rightarrow> with_status (b_id b) ''confirmed'' (bookings (db w)))"
proof -
  obtain w' e where r: "confirmBooking_try pf now ph w = (w', e)"
    by (cases "confirmBooking_try pf now ph w")
  have "db (confirmBooking pf now ph w) = db (fst (confirmBooking_try pf now ph w))"
    unfolding confirmBooking_def by (rule catch_db [OF r])
  then show ?thesis by (simp only: bookings_confirmBooking_try)
qed

lemma bookings_rejectBooking:
  "bookings (db (rejectBooking pf now ph w)) =
     (case getLatestPendingBooking (db w) of None \<Rightarrow> bookings (db w)
      | Some b \<Rightarrow> with_status (b_id b) ''rejected'' (bookings (db w)))"
proof -
  obtain w' e where r: "rejectBooking_try pf now ph w = (w', e)"
    by (cases "rejectBooking_try pf now ph w")
  have "db (rejectBooking pf now ph w) = db (fst (rejectBooking_try pf now ph w))"
    unfolding rejectBooking_def by (rule catch_db [OF r])
  then show ?thesis by (simp only: bookings_rejectBooking_try)
qed

lemma latest_created_props:
  "latest_created xs = Some b \<Longrightarrow>
     b \<in> set xs \<and> (\<forall>x \<in> set xs. b_created_at x \<le> b_created_at b)"
proof (induction xs arbitrary: b)
  case Nil
  then show ?case by simp
next
  case (Cons x xs)
  show ?case
  proof (cases "latest_created xs")
    case None
    then have "xs = []" by (cases xs) (auto split: option.splits if_splits)
    with Cons.prems show ?thesis by simp
  next
    case (Some m)
    with Cons.IH have m: "m \<in> set xs" "\<forall>y \<in> set xs. b_created_at y \<le> b_created_at m"
      by auto
    from Cons.prems Some show ?thesis using m
      by (auto split: if_splits)
  qed
qed

lemma latest_created_None: "latest_created xs = None \<longleftrightarrow> xs = []"
  by (cases xs) (auto split: option.splits if_splits)

lemma getLatestPendingBooking_props:
  assumes "getLatestPendingBooking d = Some b"
  shows "b \<in> set (bookings d)" "b_status b = ''pending''"
    "\<forall>x \<in> set (bookings d). b_status x = ''pending'' \<longrightarrow> b_created_at x \<le> b_created_at b"
  using latest_created_props [OF assms [unfolded getLatestPendingBooking_def]] by auto

lemma bookings_remind [simp]: "bookings (db (remind pf now b w)) = bookings (db w)"
proof (cases "route_findById (b_route_id b) (db w)")
  case None
  then show ?thesis by (simp add: remind_def)
next
  case (Some r)
  let ?m = "TxtReminder (r_source r) (r_destination r) (r_departure_time r) (b_journey_date b)"
  obtain w1 e where s: "sendMessage pf (b_customer_phone b) ?m w = (w1, e)"
    by (cases "sendMessage pf (b_customer_phone b) ?m w")
  have "db (fst (sendMessage pf (b_customer_phone b) ?m w)) = db w" by simp
  with s have "db w1 = db w" by simp
  with Some s show ?thesis by (cases e) (simp_all add: remind_def)
qed

lemma bookings_remind_all [simp]: "bookings (db (remind_all pf now bs w)) = bookings (db w)"
  by (induction bs arbitrary: w) simp_all

lemma bookings_sendReminders [simp]: "bookings (db (sendReminders pf now w)) = bookings (db w)"
  by (simp add: sendReminders_def Let_def)

lemma bookings_run_scheduled_jobs:
  "bookings (db (run_scheduled_jobs pf now w)) = bookings (db w)"
  by (simp add: run_scheduled_jobs_def scheduled_jobs_def run_job_def)

lemma db_finish:
  "db (fst (case r of (w5, None) \<Rightarrow> (logc l w5, h) | (w5, Some e) \<Rightarrow> (w5, g e))) = db (fst r)"
  by (cases r) (auto split: option.splits)

lemma bookings_booking_create_try:
  "evolves (bookings (db w)) (bookings (db (fst (booking_create_try pf now req w))))"
proof (cases "truthy (cr_customer_phone req)")
  case False
  then show ?thesis by (simp add: booking_create_try_def evolves_def)
next
  case True
  define found where "found = (if truthy_num (cr_route_id req)
                      then route_findById (the (cr_route_id req)) (db w)
                      else getFirstRoute (db w))"
  show ?thesis
  proof (cases found)
    case None
    with True show ?thesis
      by (simp add: booking_create_try_def evolves_def Let_def found_def [symmetric])
  next
    case (Some route)
    define jd where "jd = (if truthy (cr_journey_date req) then the (cr_journey_date req)
                                    else isoDate pf (nextDay pf now))"
    define nm where "nm = Some (if truthy (cr_customer_name req) then the (cr_customer_name req)
                                 else ''Customer'')"
    define sc where "sc = (if truthy_num (cr_seat_count req) then the (cr_seat_count req) else 1)"
    define row where "row = \<lparr>b_id = next_id (map b_id (bookings (db w))),
        b_customer_name = nm,
        b_customer_phone = the (cr_customer_phone req), b_route_id = r_id route,
        b_journey_date = jd, b_seat_count = sc,
        b_status = ''pending'', b_created_at = now div 1000\<rparr>"
    have "bookings (db (fst (booking_create_try pf now req w))) = bookings (db w) @ [row]"
      using True Some unfolding booking_create_try_def
      apply (simp add: Let_def found_def [symmetric] jd_def [symmetric] nm_def [symmetric]
        sc_def [symmetric] split del: if_split)
      apply (simp add: booking_create_def Let_def row_def [symmetric] split del: if_split)
      apply (simp add: Let_def db_finish split: option.splits split del: if_split)
      apply (intro conjI impI allI bookings_andThen)
      apply simp_all
      done
    moreover have "b_id row = next_id (map b_id (bookings (db w)))" "b_status row = ''pending''"
      by (simp_all add: row_def)
    ultimately show ?thesis unfolding evolves_def by blast
  qed
qed

lemma booking_or_latest_pending_mem:
  "booking_or_latest_pending i d = Some b \<Longrightarrow> b \<in> set (bookings d)"
  by (auto simp: booking_or_latest_pending_def booking_findById_def find_Some_iff
      dest: getLatestPendingBooking_props(1) split: if_splits)

lemma db_catch_endpoint:
  "db (snd (case r of (w', Inr res) \<Rightarrow> (res, w') | (w', Inl e) \<Rightarrow> (g e, logc (l e) w')))
     = db (fst r)"
  by (cases r) (auto split: sum.splits)

lemma bookings_booking_confirm_try:
  "evolves (bookings (db w)) (bookings (db (fst (booking_confirm_try pf now req w))))"
proof (cases "booking_or_latest_pending (dr_booking_id req) (db w)")
  case None
  then show ?thesis by (simp add: booking_confirm_try_def evolves_def)
next
  case (Some b)
  show ?thesis
  proof (cases "b_status b = ''pending''")
    case False
    with Some show ?thesis by (simp add: booking_confirm_try_def evolves_def)
  next
    case True
    obtain u d1 where u: "updateStatus (b_id b) ''confirmed'' (db w) = (u, d1)"
      by (cases "updateStatus (b_id b) ''confirmed'' (db w)")
    then have d1: "bookings d1 = with_status (b_id b) ''confirmed'' (bookings (db w))"
      using bookings_updateStatus [of "b_id b" "''confirmed''" "db w"] by simp
    have "bookings (db (fst (booking_confirm_try pf now req w))) =
            with_status (b_id b) ''confirmed'' (bookings (db w))"
      using Some True u d1 unfolding booking_confirm_try_def
      apply (simp add: Let_def db_finish split: option.splits split del: if_split)
      apply (intro conjI impI allI bookings_andThen)
      apply (simp_all split del: if_split)
      apply (simp split: if_splits)
      done
    moreover have "b \<in> set (bookings (db w))"
      using Some by (rule booking_or_latest_pending_mem)
    ultimately show ?thesis using True unfolding evolves_def by blast
  qed
qed

lemma bookings_booking_reject_try:
  "evolves (bookings (db w)) (bookings (db (fst (booking_reject_try pf now req w))))"
proof (cases "booking_or_latest_pending (dr_booking_id req) (db w)")
  case None
  then show ?thesis by (simp add: booking_reject_try_def evolves_def)
next
  case (Some b)
  show ?thesis
  proof (cases "b_status b = ''pending''")
    case False
    with Some show ?thesis by (simp add: booking_reject_try_def evolves_def)
  next
    case True
    obtain u d1 where u: "updateStatus (b_id b) ''rejected'' (db w) = (u, d1)"
      by (cases "updateStatus (b_id b) ''rejected'' (db w)")
    then have d1: "bookings d1 = with_status (b_id b) ''rejected'' (bookings (db w))"
      using bookings_updateStatus [of "b_id b" "''rejected''" "db w"] by simp
    have "bookings (db (fst (booking_reject_try pf now req w))) =
            with_status (b_id b) ''rejected'' (bookings (db w))"
      using Some True u d1 unfolding booking_reject_try_def
      apply (simp add: Let_def db_finish split: option.splits split del: if_split)
      apply (intro conjI impI allI bookings_andThen)
      apply (simp_all split del: if_split)
      apply (simp split: if_splits)
      done
    moreover have "b \<in> set (bookings (db w))"
      using Some by (rule booking_or_latest_pending_mem)
    ultimately show ?thesis using True unfolding evolves_def by blast
  qed
qed

lemma same_data_logc [simp]: "same_data w (logc l w)"
  by (simp add: same_data_def logc_def)

lemma webhook_post_silent:
  assumes "operator_says body (db w) = None" "customer_says body (db w) = None"
  shows "same_data w (snd (webhook_post pf now body w))"
proof -
  from assms have n: "inbound_text body = None"
    by (auto simp: operator_says_def customer_says_def split: option.splits)
  show ?thesis
  proof (cases body)
    case (Message m)
    with n show ?thesis
      by (auto simp: webhook_post_def webhook_post_try_def inbound_text_def logc_def
          same_data_def split: if_splits option.splits)
  qed (simp_all add: webhook_post_def webhook_post_try_def same_data_def logc_def)
qed

lemma webhook_post_operator:
  assumes "operator_says body (db w) = Some (phone, text)"
  shows "\<exists>w1. same_data w w1 \<and>
           snd (webhook_post pf now body w) = handleOperatorMessage pf now phone text w1"
proof -
  from assms obtain m where m: "body = Message m"
    by (cases body) (auto simp: operator_says_def inbound_text_def)
  from assms m obtain sender where f: "msg_type m = Some ''text''" "msg_from m = Some sender"
      "phone = normalizePhoneNumber sender"
      "text = trim (toUpperCase (if truthy (msg_text_body m) then the (msg_text_body m) else []))"
      "operator_findByPhone phone (db w) \<noteq> None"
    by (auto simp: operator_says_def inbound_text_def split: if_splits option.splits)
  let ?w1 = "logc (LogReceived phone (if truthy (msg_text_body m) then the (msg_text_body m) else [])) w"
  have "snd (webhook_post pf now body w) = handleOperatorMessage pf now phone text ?w1"
    using m f by (auto simp: webhook_post_def webhook_post_try_def Let_def split: option.splits)
  then show ?thesis using same_data_logc by blast
qed

lemma webhook_post_customer:
  assumes "customer_says body (db w) = Some (phone, text)"
  shows "\<exists>w1. same_data w w1 \<and>
           snd (webhook_post pf now body w) = handleCustomerMessage pf now phone text w1"
proof -
  from assms obtain m where m: "body = Message m"
    by (cases body) (auto simp: customer_says_def inbound_text_def)
  from assms m obtain sender where f: "msg_type m = Some ''text''" "msg_from m = Some sender"
      "phone = normalizePhoneNumber sender"
      "text = trim (toUpperCase (if truthy (msg_text_body m) then the (msg_text_body m) else []))"
      "operator_findByPhone phone (db w) = None"
    by (auto simp: customer_says_def inbound_text_def split: if_splits option.splits)
  let ?w1 = "logc (LogReceived phone (if truthy (msg_text_body m) then the (msg_text_body m) else [])) w"
  have "snd (webhook_post pf now body w) = handleCustomerMessage pf now phone text ?w1"
    using m f by (auto simp: webhook_post_def webhook_post_try_def Let_def split: option.splits)
  then show ?thesis using same_data_logc by blast
qed

lemma says_exclusive:
  "operator_says body d = None \<or> customer_says body d = None"
  by (auto simp: operator_says_def customer_says_def split: option.splits)

lemma fold_max_ge: "(a::nat) \<le> fold max xs a \<and> (\<forall>x \<in> set xs. x \<le> fold max xs a)"
proof (induction xs arbitrary: a)
  case Nil
  then show ?case by simp
next
  case (Cons y ys)
  have "max y a \<le> fold max ys (max y a)" "\<forall>x \<in> set ys. x \<le> fold max ys (max y a)"
    using Cons.IH [of "max y a"] by auto
  then show ?case by auto
qed

lemma next_id_fresh: "x \<in> set ids \<Longrightarrow> x < next_id ids"
  using fold_max_ge [of 0 ids] by (auto simp: next_id_def)

lemma ids_with_status [simp]: "map b_id (with_status i s bs) = map b_id bs"
  by (induction bs) (simp_all add: with_status_def)

lemma evolves_distinct:
  assumes "evolves bs bs'" "distinct (map b_id bs)"
  shows "distinct (map b_id bs')"
proof -
  have "next_id (map b_id bs) \<notin> set (map b_id bs)"
    using next_id_fresh [of "next_id (map b_id bs)" "map b_id bs"] by auto
  with assms show ?thesis by (auto simp: evolves_def)
qed





lemma find_append_fresh:
  "\<not> P y \<Longrightarrow> find P (xs @ [y]) = find P xs"
  by (induction xs) auto



lemma bookings_handleOperatorMessage:
  "evolves (bookings (db w)) (bookings (db (handleOperatorMessage pf now ph t w)))"
proof -
  have "getLatestPendingBooking (db w) = Some b \<Longrightarrow> (s = ''confirmed'' \<or> s = ''rejected'') \<Longrightarrow>
          evolves (bookings (db w)) (with_status (b_id b) s (bookings (db w)))" for b s
    using getLatestPendingBooking_props(1,2) [of "db w" b] unfolding evolves_def by blast
  moreover have "evolves (bookings (db w)) (bookings (db w))" by (simp add: evolves_def)
  ultimately show ?thesis
    by (auto simp: handleOperatorMessage_def bookings_confirmBooking bookings_rejectBooking
        split: option.splits)
qed

lemma bookings_handleCustomerMessage:
  "evolves (bookings (db w)) (bookings (db (handleCustomerMessage pf now ph t w)))"
  by (auto simp: handleCustomerMessage_def bookings_createBooking evolves_def new_booking_def
      split: option.splits)

lemma bookings_webhook_post:
  "evolves (bookings (db w)) (bookings (db (snd (webhook_post pf now body w))))"
proof (cases "operator_says body (db w)")
  case None
  show ?thesis
  proof (cases "customer_says body (db w)")
    case None
    with \<open>operator_says body (db w) = None\<close> have "same_data w (snd (webhook_post pf now body w))"
      by (rule webhook_post_silent)
    then show ?thesis by (simp add: same_data_def evolves_def)
  next
    case (Some a)
    obtain ph t where "a = (ph, t)" by (cases a)
    with Some obtain w1 where "same_data w w1"
        "snd (webhook_post pf now body w) = handleCustomerMessage pf now ph t w1"
      using webhook_post_customer by blast
    then show ?thesis using bookings_handleCustomerMessage [of w1 pf now ph t]
      by (simp add: same_data_def)
  qed
next
  case (Some a)
  obtain ph t where "a = (ph, t)" by (cases a)
  with Some obtain w1 where "same_data w w1"
      "snd (webhook_post pf now body w) = handleOperatorMessage pf now ph t w1"
    using webhook_post_operator by blast
  then show ?thesis using bookings_handleOperatorMessage [of w1 pf now ph t]
    by (simp add: same_data_def)
qed

lemma step_evolves: "evolves (bookings (db w)) (bookings (db (step pf now ev w)))"
proof (cases ev)
  case (WebhookGet q)
  then show ?thesis by (simp add: step_def webhook_get_def evolves_def)
next
  case (WebhookPost body)
  then show ?thesis by (simp add: step_def bookings_webhook_post)
next
  case (BookingCreate req)
  then show ?thesis
    by (simp add: step_def booking_create_endpoint_def db_catch_endpoint
        bookings_booking_create_try)
next
  case (BookingConfirm req)
  then show ?thesis
    by (simp add: step_def booking_confirm_endpoint_def db_catch_endpoint
        bookings_booking_confirm_try)
next
  case (BookingReject req)
  then show ?thesis
    by (simp add: step_def booking_reject_endpoint_def db_catch_endpoint
        bookings_booking_reject_try)
next
  case Health
  then show ?thesis by (simp add: step_def evolves_def)
next
  case Schedule
  then show ?thesis by (simp add: step_def bookings_run_scheduled_jobs evolves_def)
qed

lemma step_distinct:
  "distinct_booking_ids (db w) \<Longrightarrow> distinct_booking_ids (db (step pf now ev w))"
  unfolding distinct_booking_ids_def using step_evolves evolves_distinct by blast

lemma run_distinct:
  "distinct_booking_ids (db w) \<Longrightarrow> distinct_booking_ids (db (run evs w))"
  by (induction evs arbitrary: w) (auto simp: step_distinct)

lemma seats_append:
  "seats_with_status s rid date (d\<lparr>bookings := bookings d @ [row]\<rparr>) =
     seats_with_status s rid date d
       + (if b_status row = s \<and> b_route_id row = rid \<and> b_journey_date row = date
          then b_seat_count row else 0)"
  by (simp add: seats_with_status_def)

lemma seats_cong:
  "bookings d' = bookings d \<Longrightarrow> seats_with_status s rid date d' = seats_with_status s rid date d"
  by (simp add: seats_with_status_def)

lemma bookings_webhook_post_book:
  assumes "customer_says body (db w) = Some (ph, ''BOOK'')"
  shows "bookings (db (snd (webhook_post pf now body w))) =
     (case getFirstRoute (db w) of None \<Rightarrow> bookings (db w)
      | Some r \<Rightarrow> bookings (db w) @ [new_booking pf now ph r (db w)])"
proof -
  from assms obtain w1 where w1: "same_data w w1"
      "snd (webhook_post pf now body w) = handleCustomerMessage pf now ph ''BOOK'' w1"
    using webhook_post_customer by blast
  then have "db w1 = db w" by (simp add: same_data_def)
  with w1(2) show ?thesis
    by (simp add: handleCustomerMessage_def bookings_createBooking cong: option.case_cong)
qed


lemma only_sends_refl [simp]: "only_sends w w"
  by (simp add: only_sends_def)




















lemma has_reminder_log_iff: "has_reminder_log i d \<longleftrightarrow> 0 < reminder_logs i d"
  by (simp add: has_reminder_log_def reminder_logs_def list_ex_iff filter_empty_conv)

lemma reminder_logs_cong:
  "message_logs d' = message_logs d \<Longrightarrow> reminder_logs i d' = reminder_logs i d"
  by (simp add: reminder_logs_def)

lemma remind_logs:
  "reminder_logs i (db w) \<le> reminder_logs i (db (remind pf now b w))
   \<and> reminder_logs i (db (remind pf now b w))
       \<le> reminder_logs i (db w) + (if i = b_id b then 1 else 0)"
proof (cases "route_findById (b_route_id b) (db w)")
  case None
  then show ?thesis by (simp add: remind_def)
next
  case (Some r)
  let ?m = "TxtReminder (r_source r) (r_destination r) (r_departure_time r) (b_journey_date b)"
  obtain w1 e where s: "sendMessage pf (b_customer_phone b) ?m w = (w1, e)"
    by (cases "sendMessage pf (b_customer_phone b) ?m w")
  have "db (fst (sendMessage pf (b_customer_phone b) ?m w)) = db w" by simp
  with s have "db w1 = db w" by simp
  with Some s show ?thesis
    by (cases e)
       (simp_all add: remind_def reminder_logs_def log_message_def messageLog_create_def)
qed

lemma remind_all_logs:
  "reminder_logs i (db w) \<le> reminder_logs i (db (remind_all pf now bs w))
   \<and> (distinct (map b_id bs) \<longrightarrow>
        reminder_logs i (db (remind_all pf now bs w))
          \<le> reminder_logs i (db w) + (if i \<in> set (map b_id bs) then 1 else 0))"
proof (induction bs arbitrary: w)
  case Nil
  then show ?case by simp
next
  case (Cons b bs)
  note r = remind_logs [of i w pf now b]
  note ih = Cons.IH [of "remind pf now b w"]
  show ?case
  proof (intro conjI impI)
    from r ih show "reminder_logs i (db w) \<le> reminder_logs i (db (remind_all pf now (b # bs) w))"
      by simp
  next
    assume d: "distinct (map b_id (b # bs))"
    with ih have "reminder_logs i (db (remind_all pf now bs (remind pf now b w)))
          \<le> reminder_logs i (db (remind pf now b w)) + (if i \<in> set (map b_id bs) then 1 else 0)"
      by simp
    with r d show "reminder_logs i (db (remind_all pf now (b # bs) w))
          \<le> reminder_logs i (db w) + (if i \<in> set (map b_id (b # bs)) then 1 else 0)"
      by (auto split: if_splits)
  qed
qed

lemma selected_distinct:
  assumes "distinct_booking_ids d"
  shows "distinct (map b_id (findBookingsNeedingReminders pf now d))"
  using assms
  by (simp add: findBookingsNeedingReminders_def Let_def distinct_booking_ids_def
      distinct_map inj_on_def)

lemma selected_props:
  assumes "b \<in> set (findBookingsNeedingReminders pf now d)"
  shows "b \<in> set (bookings d)" "b_status b = ''confirmed''" "reminder_logs (b_id b) d = 0"
  using assms by (auto simp: findBookingsNeedingReminders_def Let_def has_reminder_log_iff)

lemma sendReminders_logs:
  assumes d: "distinct_booking_ids (db w)"
  shows "(0 < reminder_logs i (db w) \<longrightarrow>
            reminder_logs i (db (sendReminders pf now w)) = reminder_logs i (db w))
         \<and> (reminder_logs i (db w) = 0 \<longrightarrow> reminder_logs i (db (sendReminders pf now w)) \<le> 1)"
proof -
  let ?bs = "findBookingsNeedingReminders pf now (db w)"
  have e: "sendReminders pf now w = remind_all pf now ?bs w"
    by (cases ?bs) (simp_all add: sendReminders_def Let_def)
  note a = remind_all_logs [of i w pf now ?bs]
  have u: "reminder_logs i (db (remind_all pf now ?bs w))
          \<le> reminder_logs i (db w) + (if i \<in> set (map b_id ?bs) then 1 else 0)"
    using a selected_distinct [OF d] by blast
  have "i \<in> set (map b_id ?bs) \<Longrightarrow> reminder_logs i (db w) = 0"
    using selected_props(3) [of _ pf now "db w"] by auto
  with u a show ?thesis unfolding e by (auto split: if_splits)
qed

lemma remind_balance:
  "length (outbox (remind pf now b w)) + length (message_logs (db w))
     = length (outbox w) + length (message_logs (db (remind pf now b w)))"
proof (cases "route_findById (b_route_id b) (db w)")
  case None
  then show ?thesis by (simp add: remind_def)
next
  case (Some r)
  then show ?thesis
    by (simp add: remind_def sendMessage_def logc_def log_message_def messageLog_create_def)
qed

lemma remind_all_balance:
  "length (outbox (remind_all pf now bs w)) + length (message_logs (db w))
     = length (outbox w) + length (message_logs (db (remind_all pf now bs w)))"
proof (induction bs arbitrary: w)
  case Nil
  then show ?case by simp
next
  case (Cons b bs)
  from Cons.IH [of "remind pf now b w"] remind_balance [of pf now b w]
  show ?case by simp
qed

lemma sendReminders_balance:
  "length (outbox (sendReminders pf now w)) + length (message_logs (db w))
     = length (outbox w) + length (message_logs (db (sendReminders pf now w)))"
  using remind_all_balance [of pf now "findBookingsNeedingReminders pf now (db w)" w]
  by (simp add: sendReminders_def Let_def)


subsection \<open>Evaluating the concrete installation\<close>

lemmas model_defs =
  step_def webhook_post_def webhook_post_try_def handleCustomerMessage_def
  handleOperatorMessage_def createBooking_def createBooking_try_def confirmBooking_def
  confirmBooking_try_def rejectBooking_def rejectBooking_try_def apologise_def
  sendMessage_def andThen_def logc_def log_message_def messageLog_create_def
  booking_create_def booking_findById_def updateStatus_def route_findById_def
  operator_findByPhone_def operator_phone_or_default_def getFirstRoute_def
  getLatestPendingBooking_def next_id_def truthy_def
  seedDefaultData_def empty_database_def demo_config_def demo_platform_def demo_world_def
  demo_now_def demo_noon_def demo_morning_def offline_platform_def text_from_def Let_def

lemma demo_strings:
  "normalizePhoneNumber ''919812345678'' = ''919812345678''"
  "normalizePhoneNumber ''+91 90000-00001'' = ''919000000001''"
  "normalizePhoneNumber ''919000000001'' = ''919000000001''"
  "trim (toUpperCase ''book'') = ''BOOK''"
  "trim (toUpperCase '' yes '') = ''YES''"
  "trim (toUpperCase ''No'') = ''NO''"
  "trim (toUpperCase ''Route: Mumbai to Pune, Date: 2024-01-15, Time: 08:00, Seats: 2'')
     = ''ROUTE: MUMBAI TO PUNE, DATE: 2024-01-15, TIME: 08:00, SEATS: 2''"
  "trim (toUpperCase ''Mumbai to Pune, 2024-01-15, 08:00, 2 seats'')
     = ''MUMBAI TO PUNE, 2024-01-15, 08:00, 2 SEATS''"
  "trim (toUpperCase ''BOOK Mumbai Pune 2024-01-15 08:00 2'')
     = ''BOOK MUMBAI PUNE 2024-01-15 08:00 2''"
  "trim (toUpperCase ''BOOK Mumbai Pune 08:00 2'') = ''BOOK MUMBAI PUNE 08:00 2''"
  by code_simp+

lemma says_demo:
  "customer_says (text_from ''919812345678'' ''book'') d =
     (case operator_findByPhone ''919812345678'' d of None \<Rightarrow> Some (''919812345678'', ''BOOK'')
      | Some _ \<Rightarrow> None)"
  by (simp add: customer_says_def inbound_text_def text_from_def truthy_def demo_strings)


subsection \<open>Creating a booking\<close>

text \<open>
  C1, as stated, fails: the schema has no trip and no seat quota, and creating a booking
  checks nothing. After a customer has booked three times and the operator has confirmed
  twice, the first route has on 2024-01-16 two confirmed seats and one pending seat, the
  last event being a creation: more than a quota of one or of two seats allows.
\<close>

theorem quota_exceeded_counterexample:
  "seats_with_status ''confirmed'' 1 ''2024-01-16'' (db (run
      [(demo_platform, demo_now, WebhookPost (text_from ''919812345678'' ''book'')),
       (demo_platform, demo_now, WebhookPost (text_from ''+91 90000-00001'' '' yes '')),
       (demo_platform, demo_now, WebhookPost (text_from ''919812345678'' ''book'')),
       (demo_platform, demo_now, WebhookPost (text_from ''+91 90000-00001'' '' yes '')),
       (demo_platform, demo_now, WebhookPost (text_from ''919812345678'' ''book''))]
      demo_world)) = 2
   \<and> seats_with_status ''pending'' 1 ''2024-01-16'' (db (run
      [(demo_platform, demo_now, WebhookPost (text_from ''919812345678'' ''book'')),
       (demo_platform, demo_now, WebhookPost (text_from ''+91 90000-00001'' '' yes '')),
       (demo_platform, demo_now, WebhookPost (text_from ''919812345678'' ''book'')),
       (demo_platform, demo_now, WebhookPost (text_from ''+91 90000-00001'' '' yes '')),
       (demo_platform, demo_now, WebhookPost (text_from ''919812345678'' ''book''))]
      demo_world)) = 1"
  by (simp add: model_defs demo_strings seats_with_status_def)

text \<open>
  C1, amended. The sources keep no seat quota and check no availability: whenever a
  route exists, a customer's BOOK inserts one booking, so that the pending seats of the
  first route on the next day grow by exactly one with every creation, whatever number
  of seats is pending or confirmed already; the confirmed seats are not touched.
\<close>

theorem booking_creation_checks_no_quota:
  assumes "customer_says body (db w) = Some (ph, ''BOOK'')"
    and "getFirstRoute (db w) = Some r"
  shows "seats_with_status ''pending'' (r_id r) (isoDate pf (nextDay pf now))
           (db (snd (webhook_post pf now body w)))
         = seats_with_status ''pending'' (r_id r) (isoDate pf (nextDay pf now)) (db w) + 1
       \<and> seats_with_status ''confirmed'' (r_id r) (isoDate pf (nextDay pf now))
           (db (snd (webhook_post pf now body w)))
         = seats_with_status ''confirmed'' (r_id r) (isoDate pf (nextDay pf now)) (db w)
       \<and> length (bookings (db (snd (webhook_post pf now body w))))
         = length (bookings (db w)) + 1"
proof -
  have b: "bookings (db (snd (webhook_post pf now body w)))
             = bookings (db w) @ [new_booking pf now ph r (db w)]"
    using bookings_webhook_post_book [OF assms(1), of pf now] assms(2) by simp
  then have "bookings (db (snd (webhook_post pf now body w)))
             = bookings ((db w)\<lparr>bookings := bookings (db w) @ [new_booking pf now ph r (db w)]\<rparr>)"
    by simp
  from seats_cong [OF this] b show ?thesis
    by (simp add: seats_append new_booking_def)
qed

theorem booking_creation_checks_no_quota_witness:
  "customer_says (text_from ''919812345678'' ''book'') (db demo_world)
     = Some (''919812345678'', ''BOOK'')
   \<and> r_id (the (getFirstRoute (db demo_world))) = 1
   \<and> seats_with_status ''pending'' 1 ''2024-01-16''
        (db (snd (webhook_post demo_platform demo_now (text_from ''919812345678'' ''book'')
                    demo_world))) = 1"
proof -
  let ?r = "the (getFirstRoute (db demo_world))"
  have c: "customer_says (text_from ''919812345678'' ''book'') (db demo_world)
     = Some (''919812345678'', ''BOOK'')"
    unfolding says_demo by (simp add: model_defs)
  have r: "getFirstRoute (db demo_world) = Some ?r" "r_id ?r = 1"
    by (simp_all add: model_defs)
  have z: "seats_with_status ''pending'' 1 ''2024-01-16'' (db demo_world) = 0"
    "isoDate demo_platform (nextDay demo_platform demo_now) = ''2024-01-16''"
    by (simp_all add: model_defs seats_with_status_def)
  from booking_creation_checks_no_quota [OF c r(1), of demo_platform demo_now] c r(2) z
  show ?thesis by simp
qed


subsection \<open>The status of a booking\<close>





subsection \<open>What a creation inserts\<close>

text \<open>
  C3, as stated, fails: the booking is inserted with the status \<open>pending\<close>, the schema
  has no expiry of a hold, and nothing is refused for lack of seats. Here five seats are
  pending for the first route on 2024-01-16 and a sixth request is inserted like the
  others.
\<close>

theorem sixth_booking_counterexample:
  "map b_status (bookings (db (run
      [(demo_platform, demo_now, WebhookPost (text_from ''919812345678'' ''book'')),
       (demo_platform, demo_now, WebhookPost (text_from ''919812345678'' ''book'')),
       (demo_platform, demo_now, WebhookPost (text_from ''919812345678'' ''book'')),
       (demo_platform, demo_now, WebhookPost (text_from ''919812345678'' ''book'')),
       (demo_platform, demo_now, WebhookPost (text_from ''919812345678'' ''book'')),
       (demo_platform, demo_now, WebhookPost (text_from ''919812345678'' ''book''))]
      demo_world)))
     = [''pending'', ''pending'', ''pending'', ''pending'', ''pending'', ''pending'']"
  by (simp add: model_defs demo_strings)

text \<open>
  C3, amended. When a route exists, \<open>createBooking\<close> inserts one booking for the first
  route and the next day, with one seat, the status \<open>pending\<close> and the creation time; no
  expiry is recorded and no availability is checked. When no route exists, no booking is
  inserted and, if the provider accepts it, the customer is sent the text that no routes
  are available.
\<close>

theorem createBooking_inserts_pending:
  "(getFirstRoute (db w) = Some r \<longrightarrow>
      bookings (db (createBooking pf now customerPhone w)) =
        bookings (db w) @
          [\<lparr>b_id = next_id (map b_id (bookings (db w))), b_customer_name = Some ''Customer'',
            b_customer_phone = customerPhone, b_route_id = r_id r,
            b_journey_date = isoDate pf (nextDay pf now), b_seat_count = 1,
            b_status = ''pending'', b_created_at = now div 1000\<rparr>])
   \<and> (getFirstRoute (db w) = None \<longrightarrow>
        bookings (db (createBooking pf now customerPhone w)) = bookings (db w)
        \<and> (accepts pf customerPhone TxtNoRoutes \<longrightarrow>
             outbox (createBooking pf now customerPhone w) =
               outbox w @ [(normalizePhoneNumber customerPhone, TxtNoRoutes)]))"
proof (intro conjI impI)
  assume "getFirstRoute (db w) = Some r"
  then show "bookings (db (createBooking pf now customerPhone w)) =
        bookings (db w) @
          [\<lparr>b_id = next_id (map b_id (bookings (db w))), b_customer_name = Some ''Customer'',
            b_customer_phone = customerPhone, b_route_id = r_id r,
            b_journey_date = isoDate pf (nextDay pf now), b_seat_count = 1,
            b_status = ''pending'', b_created_at = now div 1000\<rparr>]"
    by (simp add: bookings_createBooking new_booking_def)
next
  assume "getFirstRoute (db w) = None"
  then show "bookings (db (createBooking pf now customerPhone w)) = bookings (db w)"
    by (simp add: bookings_createBooking)
next
  assume "getFirstRoute (db w) = None" "accepts pf customerPhone TxtNoRoutes"
  then show "outbox (createBooking pf now customerPhone w) =
               outbox w @ [(normalizePhoneNumber customerPhone, TxtNoRoutes)]"
    by (simp add: createBooking_def createBooking_try_def sendMessage_def accepts_def logc_def)
qed

theorem createBooking_inserts_pending_witness:
  "getFirstRoute (db demo_world) \<noteq> None
   \<and> map b_status (bookings (db (createBooking demo_platform demo_now ''919812345678''
        demo_world))) = [''pending'']
   \<and> map b_journey_date (bookings (db (createBooking demo_platform demo_now ''919812345678''
        demo_world))) = [''2024-01-16'']
   \<and> getFirstRoute empty_database = None
   \<and> accepts demo_platform ''919812345678'' TxtNoRoutes
   \<and> outbox (createBooking demo_platform demo_now ''919812345678''
        \<lparr>db = empty_database, outbox = [], console = []\<rparr>) = [(''919812345678'', TxtNoRoutes)]"
proof -
  let ?r = "the (getFirstRoute (db demo_world))"
  let ?e = "\<lparr>db = empty_database, outbox = [], console = []\<rparr>"
  have r: "getFirstRoute (db demo_world) = Some ?r" by (simp add: model_defs)
  have ne: "getFirstRoute (db demo_world) \<noteq> None" by (simp add: model_defs)
  have n: "getFirstRoute (db ?e) = None" by (simp add: model_defs)
  have a: "accepts demo_platform ''919812345678'' TxtNoRoutes"
    by (simp add: accepts_def model_defs)
  have j: "isoDate demo_platform (nextDay demo_platform demo_now) = ''2024-01-16''"
    "bookings (db demo_world) = []"
    by (simp_all add: model_defs)
  from createBooking_inserts_pending [of demo_world ?r demo_platform demo_now "''919812345678''"]
    createBooking_inserts_pending [of ?e _ demo_platform demo_now "''919812345678''"]
    r n a j ne
  show ?thesis by (simp add: demo_strings)
qed


subsection \<open>The operator's YES\<close>





subsection \<open>What a customer can say\<close>





subsection \<open>The scheduled jobs\<close>

text \<open>
  C6, as stated, fails: no job expires anything. A booking made at 06:00 is still
  \<open>pending\<close>, and not \<open>expired\<close>, after the schedules fire at 12:00, and the reminder
  job is the only one registered.
\<close>

theorem no_expiration_sweep_counterexample:
  "map b_status (bookings (db (run
      [(demo_platform, demo_now, WebhookPost (text_from ''919812345678'' ''book'')),
       (demo_platform, demo_noon, Schedule)]
      demo_world))) = [''pending'']
   \<and> map snd scheduled_jobs = [SendReminders]"
  by (simp add: model_defs demo_strings bookings_run_scheduled_jobs scheduled_jobs_def)

text \<open>
  C6, amended. The only scheduled job is the reminder sweep; a firing of the schedules
  leaves the bookings table, and so every status, as it is, however long a booking has
  been pending. Firing them again changes no booking either.
\<close>

theorem schedule_keeps_bookings:
  "map snd scheduled_jobs = [SendReminders]
   \<and> bookings (db (step pf now Schedule w)) = bookings (db w)
   \<and> bookings (db (step pf' now' Schedule (step pf now Schedule w))) = bookings (db w)"
  by (simp add: step_def bookings_run_scheduled_jobs scheduled_jobs_def)

theorem schedule_keeps_bookings_witness:
  "map b_status (bookings (db (step demo_platform demo_noon Schedule
      (run [(demo_platform, demo_now, WebhookPost (text_from ''919812345678'' ''book''))]
         demo_world)))) = [''pending'']"
  using schedule_keeps_bookings [of demo_platform demo_noon
      "run [(demo_platform, demo_now, WebhookPost (text_from ''919812345678'' ''book''))]
         demo_world"]
  by (simp add: model_defs demo_strings)


subsection \<open>Reminders\<close>

text \<open>
  C7. The reminder sweep selects exactly the bookings that are \<open>confirmed\<close>, have no
  message log row of type \<open>reminder\<close> and depart between the current time and six hours
  later. When the sweep runs twice in succession, the second run starting from the state
  the first one left: for a booking without a reminder row at most one reminder row is
  written by the two runs, a booking with a reminder row gets no further one, a booking
  reminded by the first run is not reminded by the second, and the sweeps send exactly
  one text for each row they write. (The ids of the bookings are distinct.)
\<close>

theorem reminder_at_most_once:
  assumes d: "distinct_booking_ids (db w)"
  shows "(b \<in> set (findBookingsNeedingReminders pf now (db w)) \<longleftrightarrow>
            b \<in> set (bookings (db w)) \<and> b_status b = ''confirmed''
            \<and> \<not> has_reminder_log (b_id b) (db w)
            \<and> departs_between pf (isoDate pf now @ '' '' @ timeString pf now)
                 (isoDate pf (now + 21600000) @ '' '' @ timeString pf (now + 21600000))
                 b (db w))
       \<and> (reminder_logs i (db w) = 0 \<longrightarrow>
            reminder_logs i (db (sendReminders pf2 t2 (sendReminders pf1 t1 w))) \<le> 1)
       \<and> (0 < reminder_logs i (db w) \<longrightarrow>
            reminder_logs i (db (sendReminders pf2 t2 (sendReminders pf1 t1 w)))
              = reminder_logs i (db w))
       \<and> (reminder_logs i (db w) < reminder_logs i (db (sendReminders pf1 t1 w)) \<longrightarrow>
            reminder_logs i (db (sendReminders pf2 t2 (sendReminders pf1 t1 w)))
              = reminder_logs i (db (sendReminders pf1 t1 w)))
       \<and> length (outbox (sendReminders pf2 t2 (sendReminders pf1 t1 w)))
            + length (message_logs (db w))
          = length (outbox w)
            + length (message_logs (db (sendReminders pf2 t2 (sendReminders pf1 t1 w))))"
proof -
  let ?w1 = "sendReminders pf1 t1 w"
  let ?w2 = "sendReminders pf2 t2 ?w1"
  have d1: "distinct_booking_ids (db ?w1)"
    using d by (simp add: distinct_booking_ids_def)
  note f = sendReminders_logs [OF d, of i pf1 t1]
  note s = sendReminders_logs [OF d1, of i pf2 t2]
  have sel: "b \<in> set (findBookingsNeedingReminders pf now (db w)) \<longleftrightarrow>
            b \<in> set (bookings (db w)) \<and> b_status b = ''confirmed''
            \<and> \<not> has_reminder_log (b_id b) (db w)
            \<and> departs_between pf (isoDate pf now @ '' '' @ timeString pf now)
                 (isoDate pf (now + 21600000) @ '' '' @ timeString pf (now + 21600000))
                 b (db w)"
    by (auto simp: findBookingsNeedingReminders_def Let_def)
  have zero: "reminder_logs i (db w) = 0 \<longrightarrow> reminder_logs i (db ?w2) \<le> 1"
  proof
    assume z: "reminder_logs i (db w) = 0"
    with f have "reminder_logs i (db ?w1) \<le> 1" by simp
    then consider "reminder_logs i (db ?w1) = 0" | "reminder_logs i (db ?w1) = 1" by linarith
    then show "reminder_logs i (db ?w2) \<le> 1" using s by cases simp_all
  qed
  have some: "0 < reminder_logs i (db w) \<longrightarrow> reminder_logs i (db ?w2) = reminder_logs i (db w)"
    using f s by auto
  have again: "reminder_logs i (db w) < reminder_logs i (db ?w1) \<longrightarrow>
            reminder_logs i (db ?w2) = reminder_logs i (db ?w1)"
    using s by auto
  have bal: "length (outbox ?w2) + length (message_logs (db w))
          = length (outbox w) + length (message_logs (db ?w2))"
    using sendReminders_balance [of pf1 t1 w] sendReminders_balance [of pf2 t2 ?w1] by linarith
  from sel zero some again bal show ?thesis by blast
qed

theorem reminder_at_most_once_witness:
  "distinct_booking_ids (db (run
      [(demo_platform, demo_now, WebhookPost (text_from ''919812345678'' ''book'')),
       (demo_platform, demo_now, WebhookPost (text_from ''+91 90000-00001'' '' yes ''))]
      demo_world))
   \<and> map b_id (findBookingsNeedingReminders demo_platform demo_morning (db (run
      [(demo_platform, demo_now, WebhookPost (text_from ''919812345678'' ''book'')),
       (demo_platform, demo_now, WebhookPost (text_from ''+91 90000-00001'' '' yes ''))]
      demo_world))) = [1]
   \<and> reminder_logs 1 (db (sendReminders demo_platform demo_morning (run
      [(demo_platform, demo_now, WebhookPost (text_from ''919812345678'' ''book'')),
       (demo_platform, demo_now, WebhookPost (text_from ''+91 90000-00001'' '' yes ''))]
      demo_world))) = 1
   \<and> reminder_logs 1 (db (sendReminders demo_platform demo_morning
        (sendReminders demo_platform demo_morning (run
      [(demo_platform, demo_now, WebhookPost (text_from ''919812345678'' ''book'')),
       (demo_platform, demo_now, WebhookPost (text_from ''+91 90000-00001'' '' yes ''))]
      demo_world)))) = 1"
proof -
  let ?w = "run
      [(demo_platform, demo_now, WebhookPost (text_from ''919812345678'' ''book'')),
       (demo_platform, demo_now, WebhookPost (text_from ''+91 90000-00001'' '' yes ''))]
      demo_world"
  let ?b = "\<lparr>b_id = 1, b_customer_name = Some ''Customer'', b_customer_phone = ''919812345678'',
             b_route_id = 1, b_journey_date = ''2024-01-16'', b_seat_count = 1,
             b_status = ''confirmed'', b_created_at = 1705298400\<rparr>"
  have bs: "bookings (db ?w) = [?b]"
    by (simp add: model_defs demo_strings)
  have d: "distinct_booking_ids (db ?w)"
    unfolding distinct_booking_ids_def bs by simp
  have sel: "findBookingsNeedingReminders demo_platform demo_morning (db ?w) = [?b]"
    by (simp add: findBookingsNeedingReminders_def has_reminder_log_def departs_between_def
        model_defs demo_strings)
  have one: "reminder_logs 1 (db (sendReminders demo_platform demo_morning ?w)) = 1"
    unfolding sendReminders_def sel
    by (simp add: remind_def reminder_logs_def model_defs demo_strings)
  have z: "reminder_logs 1 (db ?w) < reminder_logs 1 (db (sendReminders demo_platform demo_morning ?w))"
    unfolding one by (simp add: reminder_logs_def model_defs demo_strings)
  from reminder_at_most_once [OF d, of ?b demo_platform demo_morning 1 demo_platform
      demo_morning demo_platform demo_morning] z
  have "reminder_logs 1 (db (sendReminders demo_platform demo_morning
          (sendReminders demo_platform demo_morning ?w)))
        = reminder_logs 1 (db (sendReminders demo_platform demo_morning ?w))"
    by blast
  then have "reminder_logs 1 (db (sendReminders demo_platform demo_morning
          (sendReminders demo_platform demo_morning ?w))) = 1"
    unfolding one .
  with d sel one show ?thesis by (simp del: run.simps)
qed


subsection \<open>The event delivery is always acknowledged\<close>

text \<open>
  C8. Every delivery to \<open>POST /whatsapp/webhook\<close> is answered with status 200 and body
  \<open>OK\<close>, whatever the payload, the state, the platform and the outcome of the processing;
  an error thrown by the processing is caught: the state reached is kept and one line
  with the error is added to the console.
\<close>

theorem webhook_post_acknowledges:
  "fst (webhook_post pf now body w) = (200, Some ''OK'')
   \<and> (case webhook_post_try pf now body w of
        (w', Some e) \<Rightarrow>
          snd (webhook_post pf now body w) = w'\<lparr>console := console w' @ [LogErrorProcessingWebhook e]\<rparr>
      | (w', None) \<Rightarrow> snd (webhook_post pf now body w) = w')"
  by (cases "webhook_post_try pf now body w")
     (auto simp: webhook_post_def logc_def split: option.splits)

text \<open>A delivery without a body and a text message without a sender make the processing
  throw; a customer whose booking cannot be announced (the provider is unreachable) is
  handled inside \<open>createBooking\<close>. All are acknowledged.\<close>

theorem webhook_post_acknowledges_witness:
  "webhook_post demo_platform demo_now NoBody demo_world
     = ((200, Some ''OK''), demo_world\<lparr>console := [LogErrorProcessingWebhook TypeError]\<rparr>)
   \<and> fst (webhook_post demo_platform demo_now
        (Message \<lparr>msg_from = None, msg_type = Some ''text'', msg_text_body = Some ''BOOK''\<rparr>)
        demo_world) = (200, Some ''OK'')
   \<and> fst (webhook_post offline_platform demo_now (text_from ''919812345678'' ''book'')
        demo_world) = (200, Some ''OK'')"
proof -
  have "webhook_post_try demo_platform demo_now NoBody demo_world = (demo_world, Some TypeError)"
    by (simp add: webhook_post_try_def)
  with webhook_post_acknowledges [of demo_platform demo_now NoBody demo_world]
  have "fst (webhook_post demo_platform demo_now NoBody demo_world) = (200, Some ''OK'')"
    "snd (webhook_post demo_platform demo_now NoBody demo_world)
       = demo_world\<lparr>console := [LogErrorProcessingWebhook TypeError]\<rparr>"
    by (simp_all add: demo_world_def)
  then have "webhook_post demo_platform demo_now NoBody demo_world
     = ((200, Some ''OK''), demo_world\<lparr>console := [LogErrorProcessingWebhook TypeError]\<rparr>)"
    by (simp add: prod_eq_iff)
  then show ?thesis
    using webhook_post_acknowledges [of demo_platform demo_now
        "Message \<lparr>msg_from = None, msg_type = Some ''text'', msg_text_body = Some ''BOOK''\<rparr>"
        demo_world]
      webhook_post_acknowledges [of offline_platform demo_now
        "text_from ''919812345678'' ''book''" demo_world]
    by blast
qed


subsection \<open>The verification handshake\<close>

text \<open>
  C9. A handshake request that carries a mode and a verify token (present in the sense
  of the handler's own test, \<open>mode && token\<close>: defined and not empty) is answered with
  status 200 and the challenge as body if and only if the mode is \<open>subscribe\<close> and the
  token is the configured \<open>WEBHOOK_VERIFY_TOKEN\<close>, and with 403 Forbidden otherwise; a
  request in which the mode or the token is missing is answered with 400 Bad Request.
\<close>

theorem webhook_get_handshake:
  "(truthy (hub_mode q) \<and> truthy (hub_verify_token q) \<longrightarrow>
      (fst (webhook_get cfg q w) = (200, hub_challenge q)
         \<longleftrightarrow> hub_mode q = Some ''subscribe'' \<and> hub_verify_token q = WEBHOOK_VERIFY_TOKEN cfg)
    \<and> (\<not> (hub_mode q = Some ''subscribe'' \<and> hub_verify_token q = WEBHOOK_VERIFY_TOKEN cfg)
         \<longrightarrow> fst (webhook_get cfg q w) = (403, Some ''Forbidden'')))
   \<and> (\<not> (truthy (hub_mode q) \<and> truthy (hub_verify_token q)) \<longrightarrow>
         fst (webhook_get cfg q w) = (400, Some ''Bad Request''))"
  by (simp add: webhook_get_def)

theorem webhook_get_handshake_witness:
  "truthy (Some ''subscribe'') \<and> truthy (Some ''s3cret'')
   \<and> fst (webhook_get demo_config
        \<lparr>hub_mode = Some ''subscribe'', hub_verify_token = Some ''s3cret'',
         hub_challenge = Some ''test123''\<rparr> demo_world) = (200, Some ''test123'')
   \<and> fst (webhook_get demo_config
        \<lparr>hub_mode = Some ''subscribe'', hub_verify_token = Some ''guess'',
         hub_challenge = Some ''test123''\<rparr> demo_world) = (403, Some ''Forbidden'')
   \<and> fst (webhook_get demo_config
        \<lparr>hub_mode = Some ''subscribe'', hub_verify_token = None,
         hub_challenge = Some ''test123''\<rparr> demo_world) = (400, Some ''Bad Request'')"
  using webhook_get_handshake [of "\<lparr>hub_mode = Some ''subscribe'', hub_verify_token = Some ''s3cret'',
         hub_challenge = Some ''test123''\<rparr>" demo_config demo_world]
    webhook_get_handshake [of "\<lparr>hub_mode = Some ''subscribe'', hub_verify_token = Some ''guess'',
         hub_challenge = Some ''test123''\<rparr>" demo_config demo_world]
    webhook_get_handshake [of "\<lparr>hub_mode = Some ''subscribe'', hub_verify_token = None,
         hub_challenge = Some ''test123''\<rparr>" demo_config demo_world]
  by (simp add: truthy_def demo_config_def)


subsection \<open>The operator's NO\<close>




end
